theory Spec2Isabelle
  imports Complex_Main
begin

section \<open>Numbers, colours and the configuration\<close>

text \<open>
  The program computes with IEEE doubles (and stores star data in \<^verbatim>\<open>Float32Array\<close>s).
  The embedding computes with exact reals. A JavaScript number that is not finite
  (\<^verbatim>\<open>NaN\<close>, \<^verbatim>\<open>Infinity\<close>) is \<open>None\<close> in the type \<open>number\<close>; the only
  operations of the modelled code that leave the finite numbers are the divisions by
  \<^verbatim>\<open>armCount\<close> and by \<^verbatim>\<open>galaxyRadius\<close>, and a read past the end of an array
  (\<^verbatim>\<open>undefined\<close>, which the arithmetic that follows turns into \<^verbatim>\<open>NaN\<close>).
\<close>

type_synonym number = "real option"

definition js_div :: "real \<Rightarrow> real \<Rightarrow> number" where
  \<comment> \<open>\<^verbatim>\<open>a / b\<close>: dividing by zero gives \<^verbatim>\<open>NaN\<close> or an infinity, no exception\<close>
  "js_div a b = (if b = 0 then None else Some (a / b))"

definition num_less :: "number \<Rightarrow> real \<Rightarrow> bool" where
  \<comment> \<open>\<^verbatim>\<open>q < c\<close> for a \<open>q\<close> that is finite, \<^verbatim>\<open>NaN\<close> or \<^verbatim>\<open>+Infinity\<close>: false unless finite and smaller\<close>
  "num_less q c = (case q of None \<Rightarrow> False | Some v \<Rightarrow> v < c)"

definition num_add :: "number \<Rightarrow> number \<Rightarrow> number" where
  "num_add p q = (case (p, q) of (Some u, Some v) \<Rightarrow> Some (u + v) | _ \<Rightarrow> None)"

definition get :: "number list \<Rightarrow> nat \<Rightarrow> number" where
  \<comment> \<open>\<^verbatim>\<open>xs[i]\<close>: a read past the end is \<^verbatim>\<open>undefined\<close>\<close>
  "get xs i = (if i < length xs then xs ! i else None)"

text \<open>
  \<^verbatim>\<open>Math.atan2(z, x)\<close> on finite arguments (zero is \<open>+0\<close> in the reals).
\<close>

definition atan2 :: "real \<Rightarrow> real \<Rightarrow> real" where
  "atan2 z x =
     (if 0 < x then arctan (z / x)
      else if x < 0 then (if 0 \<le> z then arctan (z / x) + pi else arctan (z / x) - pi)
      else if 0 < z then pi / 2
      else if z < 0 then - (pi / 2)
      else 0)"

text \<open>
  \<^verbatim>\<open>THREE.Color\<close>: three channels. \<open>setHex\<close> reads the channels of a 24-bit
  colour, \<open>lerpColors\<close> and \<open>multiplyScalar\<close> are channelwise. (The library's
  optional colour-space conversion is not part of the model.) The fields are
  \<^verbatim>\<open>r\<close>, \<^verbatim>\<open>g\<close>, \<^verbatim>\<open>b\<close> in the library.
\<close>

record Color =
  col_r :: real
  col_g :: real
  col_b :: real

definition setHex :: "nat \<Rightarrow> Color" where
  "setHex h = \<lparr>col_r = real ((h div 65536) mod 256) / 255,
               col_g = real ((h div 256) mod 256) / 255,
               col_b = real (h mod 256) / 255\<rparr>"

definition lerpColors :: "Color \<Rightarrow> Color \<Rightarrow> real \<Rightarrow> Color" where
  "lerpColors c1 c2 alpha =
     \<lparr>col_r = col_r c1 + (col_r c2 - col_r c1) * alpha,
      col_g = col_g c1 + (col_g c2 - col_g c1) * alpha,
      col_b = col_b c1 + (col_b c2 - col_b c1) * alpha\<rparr>"

definition multiplyScalar :: "Color \<Rightarrow> real \<Rightarrow> Color" where
  "multiplyScalar c s = \<lparr>col_r = col_r c * s, col_g = col_g c * s, col_b = col_b c * s\<rparr>"

text \<open>
  \<^verbatim>\<open>GalaxyConfig\<close> (types/galaxy.ts). The counts are integers; \<open>starColors\<close> holds
  the colours already parsed from the configuration's strings; \<open>brightness\<close> is
  \<open>None\<close> when the field is absent (the generator's own tests build configurations
  without it).
\<close>

record GalaxyConfig =
  starCount :: int
  armCount :: int
  galaxyRadius :: real
  rotationSpeed :: real
  coreSize :: real
  starColors :: "Color list"
  particleSize :: real
  brightness :: "real option"

text \<open>
  \<^verbatim>\<open>Math.random()\<close>: the sequence of values the calls return, each in \<open>[0, 1)\<close>.
  A call takes the first value and leaves the rest.
\<close>

type_synonym rng = "nat \<Rightarrow> real"

definition random :: "rng \<Rightarrow> real \<times> rng" where
  "random g = (g 0, \<lambda>n. g (Suc n))"

definition valid_rng :: "rng \<Rightarrow> bool" where
  "valid_rng g = (\<forall>n. 0 \<le> g n \<and> g n < 1)"

section \<open>GalaxyGenerator.ts\<close>

subsection \<open>calculateAngularVelocity\<close>

definition calculateAngularVelocity :: "real \<Rightarrow> real \<Rightarrow> real" where
  "calculateAngularVelocity radius rotationSpeed' =
     (let maxVelocity = rotationSpeed' in
      if radius < 10 then maxVelocity * (radius / 10)
      else if radius < 30 then maxVelocity
      else maxVelocity * (30 / radius) powr 0.3)"

text \<open>The rotation curve as the specification words it (section 4.2).\<close>

definition angularVelocity_reference :: "real \<Rightarrow> real \<Rightarrow> real" where
  "angularVelocity_reference radius s =
     (if radius < 10 then s * (radius / 10)
      else if 10 \<le> radius \<and> radius < 30 then s
      else s * (30 / radius) powr 0.3)"

subsection \<open>generateSpiralArms\<close>

text \<open>
  What one pass of a generation loop pushes onto the three arrays: \<^verbatim>\<open>x, y, z\<close>,
  the colour and the size. \<^verbatim>\<open>x\<close> and \<^verbatim>\<open>z\<close> come from the angle, which is not a
  finite number when \<^verbatim>\<open>armCount\<close> is zero.
\<close>

record StarSample =
  star_x :: number
  star_y :: real
  star_z :: number
  star_color :: Color
  star_size :: real

text \<open>The object \<^verbatim>\<open>{ positions, colors, sizes }\<close> of flat arrays.\<close>

record StarArrays =
  positions :: "number list"
  colors :: "real list"
  sizes :: "real list"

definition pushStar :: "StarArrays \<Rightarrow> StarSample \<Rightarrow> StarArrays" where
  \<comment> \<open>\<^verbatim>\<open>positions.push(x, y, z); colors.push(color.r, color.g, color.b); sizes.push(size)\<close>\<close>
  "pushStar a s =
     \<lparr>positions = positions a @ [star_x s, Some (star_y s), star_z s],
      colors = colors a @ [col_r (star_color s), col_g (star_color s), col_b (star_color s)],
      sizes = sizes a @ [star_size s]\<rparr>"

definition colorAt :: "Color list \<Rightarrow> int \<Rightarrow> Color" where
  \<comment> \<open>\<^verbatim>\<open>new THREE.Color(config.starColors[colorIndex])\<close>; past the end the entry is
      \<^verbatim>\<open>undefined\<close> and the colour stays the constructor's white\<close>
  "colorAt cs i =
     (if 0 \<le> i \<and> nat i < length cs then cs ! nat i else \<lparr>col_r = 1, col_g = 1, col_b = 1\<rparr>)"

definition brightnessValue :: "GalaxyConfig \<Rightarrow> real" where
  \<comment> \<open>\<^verbatim>\<open>config.brightness || 1.0\<close>\<close>
  "brightnessValue config =
     (case brightness config of None \<Rightarrow> 1.0 | Some v \<Rightarrow> if v = 0 then 1.0 else v)"

text \<open>
  Lines 46 to 78: the colour of a star from its distance ratio, before the
  brightness factor; one or two calls of \<^verbatim>\<open>Math.random()\<close>.
\<close>

definition starBaseColor :: "GalaxyConfig \<Rightarrow> number \<Rightarrow> rng \<Rightarrow> Color \<times> rng" where
  "starBaseColor config distanceRatio g0 =
     (if num_less distanceRatio 0.3 then
        (let (u, g1) = random g0
         in (lerpColors (setHex 0xffffff) (setHex 0xffddaa) u, g1))
      else if num_less distanceRatio 0.7 then
        (let (u, g1) = random g0;
             colorIndex = \<lfloor>u * real (length (starColors config))\<rfloor>
         in (colorAt (starColors config) colorIndex, g1))
      else
        (let (u, g1) = random g0 in
         if u < 0.7 then
           (let (v, g2) = random g1;
                colorIndex = \<lfloor>v * real (length (starColors config))\<rfloor>
            in (multiplyScalar (colorAt (starColors config) colorIndex) 0.85, g2))
         else
           (let (v, g2) = random g1
            in (lerpColors (setHex 0xaaddff) (setHex 0x6699cc) v, g2))))"

text \<open>The body of the loop of \<^verbatim>\<open>generateSpiralArms\<close> (lines 19 to 92).\<close>

definition spiralStar :: "GalaxyConfig \<Rightarrow> real \<Rightarrow> rng \<Rightarrow> StarSample \<times> rng" where
  "spiralStar config adjustedTightness' g0 =
     (let (u1, g1) = random g0;
          armIndex = \<lfloor>u1 * real_of_int (armCount config)\<rfloor>;
          armAngleOffset = js_div (real_of_int armIndex * 2 * pi) (real_of_int (armCount config));
          (u2, g2) = random g1;
          radius = u2 * galaxyRadius config;
          spiralAngle = num_add armAngleOffset (Some (radius * adjustedTightness'));
          (u3, g3) = random g2;
          angleVariation =
            map_option (\<lambda>q. (u3 - 0.5) * 0.5 * q) (js_div 3 (real_of_int (armCount config)));
          (u4, g4) = random g3;
          radiusVariation = (u4 - 0.5) * 10;
          finalAngle = num_add spiralAngle angleVariation;
          finalRadius = max 0 (radius + radiusVariation);
          x = map_option (\<lambda>a. cos a * finalRadius) finalAngle;
          z = map_option (\<lambda>a. sin a * finalRadius) finalAngle;
          (u5, g5) = random g4;
          y = (u5 - 0.5) * 5 * exp (- finalRadius / 30);
          distanceRatio = js_div finalRadius (galaxyRadius config);
          (color, g6) = starBaseColor config distanceRatio g5;
          color' = multiplyScalar color (brightnessValue config);
          baseSize = particleSize config;
          (u6, g7) = random g6;
          sizeVariation = u6 * 2 + 0.5;
          distanceSize =
            (if num_less distanceRatio 0.3 then 1.5
             else if num_less distanceRatio 0.7 then 1.2 else 1.0);
          finalSize = baseSize * sizeVariation * distanceSize
      in (\<lparr>star_x = x, star_y = y, star_z = z, star_color = color', star_size = finalSize\<rparr>,
          g7))"

fun spiralArmsLoop ::
  "GalaxyConfig \<Rightarrow> real \<Rightarrow> nat \<Rightarrow> StarArrays \<Rightarrow> rng \<Rightarrow> StarArrays \<times> rng" where
  "spiralArmsLoop config adjustedTightness' 0 a g = (a, g)"
| "spiralArmsLoop config adjustedTightness' (Suc n) a g =
     (let (s, g') = spiralStar config adjustedTightness' g
      in spiralArmsLoop config adjustedTightness' n (pushStar a s) g')"

text \<open>
  \<^verbatim>\<open>generateSpiralArms(config, tightness = 0.3)\<close>. The loop
  \<^verbatim>\<open>for (let i = 0; i < starCount; i++)\<close> makes \<open>nat starCount\<close> passes (none for
  a negative count). The result comes with the random values left for later calls.
\<close>

definition adjustedTightness :: "GalaxyConfig \<Rightarrow> real \<Rightarrow> real" where
  "adjustedTightness config tightness =
     tightness * (1 + (real_of_int (armCount config) - 2) * 0.05)"

definition generateSpiralArms :: "GalaxyConfig \<Rightarrow> real \<Rightarrow> rng \<Rightarrow> StarArrays \<times> rng" where
  "generateSpiralArms config tightness g =
     spiralArmsLoop config (adjustedTightness config tightness) (nat (starCount config))
       \<lparr>positions = [], colors = [], sizes = []\<rparr> g"

subsection \<open>addCentralBulge\<close>

text \<open>
  The body of the loop of \<^verbatim>\<open>addCentralBulge\<close> (lines 110 to 136).
  \<^verbatim>\<open>Math.acos\<close> is \<open>arccos\<close> on \<open>[-1, 1]\<close>, where \<open>2 * u - 1\<close> lies for every
  value \<open>u\<close> of \<^verbatim>\<open>Math.random()\<close>.
\<close>

definition bulgeStar :: "GalaxyConfig \<Rightarrow> rng \<Rightarrow> StarSample \<times> rng" where
  "bulgeStar config g0 =
     (let (u1, g1) = random g0;
          (u2, g2) = random g1;
          radius = u1 * u2 * coreSize config;
          (u3, g3) = random g2;
          theta = u3 * 2 * pi;
          (u4, g4) = random g3;
          phi = arccos (2 * u4 - 1);
          x = radius * sin phi * cos theta;
          y = radius * cos phi * 0.3;
          z = radius * sin phi * sin theta;
          (u5, g5) = random g4;
          color = lerpColors (setHex 0xffaa66) (setHex 0xff8844) u5;
          color' = multiplyScalar color (brightnessValue config);
          (u6, g6) = random g5;
          bulgeSize = particleSize config * (1.5 + u6)
      in (\<lparr>star_x = Some x, star_y = y, star_z = Some z, star_color = color',
            star_size = bulgeSize\<rparr>, g6))"

fun bulgeLoop :: "GalaxyConfig \<Rightarrow> nat \<Rightarrow> StarArrays \<Rightarrow> rng \<Rightarrow> StarArrays \<times> rng" where
  "bulgeLoop config 0 a g = (a, g)"
| "bulgeLoop config (Suc n) a g =
     (let (s, g') = bulgeStar config g in bulgeLoop config n (pushStar a s) g')"

definition addCentralBulge ::
  "GalaxyConfig \<Rightarrow> number list \<Rightarrow> real list \<Rightarrow> real list \<Rightarrow> int \<Rightarrow> rng \<Rightarrow> StarArrays \<times> rng"
  where
  "addCentralBulge config positions' colors' sizes' bulgeStars g =
     bulgeLoop config (nat bulgeStars)
       \<lparr>positions = positions', colors = colors', sizes = sizes'\<rparr> g"

section \<open>GalaxyRenderer.ts\<close>

text \<open>
  The star data of the renderer: the three arrays of the generator (copied into
  \<^verbatim>\<open>Float32Array\<close>s; the rounding to single precision is not modelled) and the
  rotation data computed from them.
\<close>

record GalaxyRenderer = StarArrays +
  rotationRadii :: "number list"
  angularVelocities :: "number list"
  galaxyConfig :: GalaxyConfig

definition num_mul :: "number \<Rightarrow> number \<Rightarrow> number" where
  "num_mul p q = (case (p, q) of (Some u, Some v) \<Rightarrow> Some (u * v) | _ \<Rightarrow> None)"

text \<open>
  The body of the loop of \<^verbatim>\<open>generateGalaxy\<close> (lines 127 to 140): the radius and the
  angular velocity of star \<open>i\<close>. The variable the source calls \<^verbatim>\<open>z\<close> is read at
  \<^verbatim>\<open>i * 3 + 1\<close>. \<^verbatim>\<open>calculateAngularVelocity\<close> of \<^verbatim>\<open>NaN\<close> is \<^verbatim>\<open>NaN\<close> (both
  comparisons fail, and the power of \<^verbatim>\<open>NaN\<close> is \<^verbatim>\<open>NaN\<close>).
\<close>

definition rotationData :: "number list \<Rightarrow> real \<Rightarrow> nat \<Rightarrow> number \<times> number" where
  "rotationData ps speed i =
     (let x = get ps (i * 3);
          z = get ps (i * 3 + 1);
          radius = (case (x, z) of
                      (Some x', Some z') \<Rightarrow> Some (sqrt (x' * x' + z' * z'))
                    | _ \<Rightarrow> None)
      in (radius, map_option (\<lambda>r. calculateAngularVelocity r speed) radius))"

definition generateGalaxy :: "GalaxyConfig \<Rightarrow> rng \<Rightarrow> GalaxyRenderer \<times> rng" where
  "generateGalaxy config g =
     (let (spiralData, g1) = generateSpiralArms config 0.3 g;
          bulgeStars = \<lfloor>real_of_int (starCount config) * 0.2\<rfloor>;
          (galaxyData, g2) =
            addCentralBulge config (positions spiralData) (colors spiralData) (sizes spiralData)
              bulgeStars g1;
          totalStars = length (positions galaxyData) div 3;
          rotation = map (rotationData (positions galaxyData) (rotationSpeed config)) [0..<totalStars]
      in (\<lparr>positions = positions galaxyData, colors = colors galaxyData, sizes = sizes galaxyData,
            rotationRadii = map fst rotation, angularVelocities = map snd rotation,
            galaxyConfig = config\<rparr>, g2))"

text \<open>
  The body of the loop of \<^verbatim>\<open>updateStarPositions\<close> (lines 188 to 208), on the
  positions as the passes before it left them. \<^verbatim>\<open>radius < 0.1\<close> is false for a
  \<^verbatim>\<open>NaN\<close> radius; a write past the end of a typed array does nothing, as
  \<open>list_update\<close> does.
\<close>

definition updateStar :: "real \<Rightarrow> GalaxyRenderer \<Rightarrow> nat \<Rightarrow> number list \<Rightarrow> number list" where
  "updateStar elapsedTime st i ps =
     (let radius = get (rotationRadii st) i in
      if num_less radius 0.1 then ps
      else
        let angularVelocity = get (angularVelocities st) i;
            angle = map_option (\<lambda>v. elapsedTime * v) angularVelocity;
            x = get ps (i * 3);
            z = get ps (i * 3 + 2);
            currentAngle = (case (z, x) of
                              (Some z', Some x') \<Rightarrow> Some (atan2 z' x')
                            | _ \<Rightarrow> None);
            newAngle = num_add currentAngle angle
        in ps[i * 3 := num_mul (map_option cos newAngle) radius,
              i * 3 + 2 := num_mul (map_option sin newAngle) radius])"

text \<open>
  \<^verbatim>\<open>updateStarPositions(elapsedTime)\<close>: the loop runs while \<^verbatim>\<open>i < length / 3\<close>.
\<close>

definition updateStarPositions :: "real \<Rightarrow> GalaxyRenderer \<Rightarrow> GalaxyRenderer" where
  "updateStarPositions elapsedTime st =
     st\<lparr>positions :=
          fold (updateStar elapsedTime st) [0..<(length (positions st) + 2) div 3] (positions st)\<rparr>"

text \<open>
  The frames of \<^verbatim>\<open>animate\<close>, as far as the star data goes: one call of
  \<^verbatim>\<open>updateStarPositions\<close> per frame, with the clock's elapsed time at that frame.
\<close>

definition animate :: "real list \<Rightarrow> GalaxyRenderer \<Rightarrow> GalaxyRenderer" where
  "animate elapsedTimes st = fold updateStarPositions elapsedTimes st"

section \<open>The viewer component (initializeRotationData, updateGalaxyRotation)\<close>

text \<open>
  The component keeps \<^verbatim>\<open>starData\<close> beside the positions of the mesh. Its
  \<^verbatim>\<open>calculateAngularVelocity(radius)\<close> is the same curve, with the speed read from the
  configuration.
\<close>

record StarData =
  originalPositions :: "number list"
  radii :: "number list"
  angles :: "number list"
  angularVelocities' :: "number list"

definition initialRotation :: "number list \<Rightarrow> real \<Rightarrow> nat \<Rightarrow> number \<times> number \<times> number" where
  \<comment> \<open>the body of the loop of \<^verbatim>\<open>initializeRotationData\<close>: radius, angle, angular velocity\<close>
  "initialRotation ps speed i =
     (let x = get ps (i * 3);
          z = get ps (i * 3 + 2);
          radius = (case (x, z) of
                      (Some x', Some z') \<Rightarrow> Some (sqrt (x' * x' + z' * z'))
                    | _ \<Rightarrow> None);
          angle = (case (z, x) of (Some z', Some x') \<Rightarrow> Some (atan2 z' x') | _ \<Rightarrow> None)
      in (radius, angle, map_option (\<lambda>r. calculateAngularVelocity r speed) radius))"

definition initializeRotationData :: "number list \<Rightarrow> real \<Rightarrow> StarData" where
  "initializeRotationData ps speed =
     (let starCount' = length ps div 3;
          rotation = map (initialRotation ps speed) [0..<starCount']
      in \<lparr>originalPositions = ps,
          radii = map fst rotation,
          angles = map (\<lambda>r. fst (snd r)) rotation,
          angularVelocities' = map (\<lambda>r. snd (snd r)) rotation\<rparr>)"

text \<open>
  The body of the loop of \<^verbatim>\<open>updateGalaxyRotation(deltaTime)\<close>, on the pair of
  \<^verbatim>\<open>starData\<close> and the mesh positions.
\<close>

definition rotateStar :: "real \<Rightarrow> nat \<Rightarrow> StarData \<times> number list \<Rightarrow> StarData \<times> number list" where
  "rotateStar deltaTime i s =
     (let starData = fst s;
          ps = snd s;
          radius = get (radii starData) i;
          angularVelocity = get (angularVelocities' starData) i;
          angle' = num_add (get (angles starData) i)
                     (map_option (\<lambda>v. v * deltaTime) angularVelocity);
          newX = num_mul (map_option cos angle') radius;
          newZ = num_mul (map_option sin angle') radius
      in (starData\<lparr>angles := (angles starData)[i := angle']\<rparr>,
          ps[i * 3 := newX, i * 3 + 2 := newZ]))"

definition updateGalaxyRotation ::
  "real \<Rightarrow> StarData \<times> number list \<Rightarrow> StarData \<times> number list" where
  "updateGalaxyRotation deltaTime s =
     fold (rotateStar deltaTime) [0..<length (radii (fst s))] s"

section \<open>RenderingOptimizer\<close>

text \<open>
  \<^verbatim>\<open>THREE.Vector3\<close> (fields \<^verbatim>\<open>x\<close>, \<^verbatim>\<open>y\<close>, \<^verbatim>\<open>z\<close>) and its \<^verbatim>\<open>distanceTo\<close>. The
  camera is its position and its view volume: the containment test of the
  \<^verbatim>\<open>THREE.Frustum\<close> that \<^verbatim>\<open>updateFrustum\<close> builds from the camera's matrices, which
  is the library's and a parameter here. The optimizer reads arrays of finite numbers.
\<close>

record Vector3 =
  vec_x :: real
  vec_y :: real
  vec_z :: real

definition distanceTo :: "Vector3 \<Rightarrow> Vector3 \<Rightarrow> real" where
  "distanceTo p q =
     sqrt ((vec_x p - vec_x q) * (vec_x p - vec_x q) + (vec_y p - vec_y q) * (vec_y p - vec_y q)
           + (vec_z p - vec_z q) * (vec_z p - vec_z q))"

record Camera =
  cameraPosition :: Vector3
  frustumContains :: "Vector3 \<Rightarrow> bool"

definition isPointVisible :: "Camera \<Rightarrow> Vector3 \<Rightarrow> bool" where
  "isPointVisible camera point = frustumContains camera point"

definition lodDistances :: "real list" where
  \<comment> \<open>set by the constructor, never changed\<close>
  "lodDistances = [50, 100, 200, 400]"

fun getLODLevelFrom :: "real list \<Rightarrow> nat \<Rightarrow> real \<Rightarrow> nat" where
  \<comment> \<open>the loop of \<^verbatim>\<open>getLODLevel\<close> from index \<open>i\<close> on, over the thresholds left\<close>
  "getLODLevelFrom [] i distance' = i"
| "getLODLevelFrom (d # ds) i distance' =
     (if distance' < d then i else getLODLevelFrom ds (Suc i) distance')"

definition getLODLevel :: "real \<Rightarrow> nat" where
  "getLODLevel distance' = getLODLevelFrom lodDistances 0 distance'"

text \<open>
  What \<^verbatim>\<open>optimizeStarRendering\<close> pushes for a star. The colour and the size are
  \<open>None\<close> when the colour or size array is too short for the star.
\<close>

record StarEntry =
  position :: Vector3
  color :: "Color option"
  size' :: "real option"
  distance :: real

definition starEntry :: "Camera \<Rightarrow> real list \<Rightarrow> real list \<Rightarrow> real list \<Rightarrow> nat \<Rightarrow> StarEntry" where
  "starEntry camera ps cs ss i =
     (let position' = \<lparr>vec_x = ps ! (i * 3), vec_y = ps ! (i * 3 + 1), vec_z = ps ! (i * 3 + 2)\<rparr>
      in \<lparr>position = position',
          color = (if i * 3 + 2 < length cs
                   then Some \<lparr>col_r = cs ! (i * 3), col_g = cs ! (i * 3 + 1), col_b = cs ! (i * 3 + 2)\<rparr>
                   else None),
          size' = (if i < length ss then Some (ss ! i) else None),
          distance = distanceTo position' (cameraPosition camera)\<rparr>)"

text \<open>
  The body of the loop over the stars (lines 495 to 539); \<open>starsByLOD\<close> is the
  \<^verbatim>\<open>Map\<close> from LOD level to the stars pushed for it so far.
\<close>

definition classifyStar ::
  "Camera \<Rightarrow> real list \<Rightarrow> real list \<Rightarrow> real list \<Rightarrow> nat
    \<Rightarrow> (nat \<rightharpoonup> StarEntry list) \<Rightarrow> (nat \<rightharpoonup> StarEntry list)" where
  "classifyStar camera ps cs ss i starsByLOD =
     (let entry = starEntry camera ps cs ss i in
      if distance entry > last lodDistances * 2 then starsByLOD
      else if \<not> isPointVisible camera (position entry) then starsByLOD
      else
        let lodLevel = getLODLevel (distance entry)
        in starsByLOD(lodLevel \<mapsto>
             (case starsByLOD lodLevel of None \<Rightarrow> [] | Some stars \<Rightarrow> stars) @ [entry]))"

definition groupStarsByLOD ::
  "Camera \<Rightarrow> real list \<Rightarrow> real list \<Rightarrow> real list \<Rightarrow> (nat \<rightharpoonup> StarEntry list)" where
  "groupStarsByLOD camera ps cs ss =
     fold (classifyStar camera ps cs ss) [0..<length ps div 3] Map.empty"

section \<open>Views for the proofs\<close>

text \<open>
  Nothing below is code of the program. A generation loop pushes one sample per pass:
  \<open>samples body n g\<close> lists the samples of \<open>n\<close> passes that start with the random
  values \<open>g\<close>, \<open>rng_after body n g\<close> is what the passes leave of \<open>g\<close>, and
  \<open>pushAll a xs\<close> is the arrays \<open>a\<close> after the pushes of \<open>xs\<close>. The other
  definitions name local variables of the loop bodies (\<^verbatim>\<open>finalRadius\<close> and
  \<^verbatim>\<open>finalAngle\<close> of \<^verbatim>\<open>generateSpiralArms\<close>, \<^verbatim>\<open>radius\<close> of
  \<^verbatim>\<open>addCentralBulge\<close>) as functions of the random values of the pass, and
  \<open>testConfig\<close> is the configuration of the generator's tests.
\<close>

definition spiralFinalRadius :: "GalaxyConfig \<Rightarrow> rng \<Rightarrow> real" where
  "spiralFinalRadius c g = max 0 (g 1 * galaxyRadius c + (g 3 - 0.5) * 10)"

definition spiralFinalAngle :: "GalaxyConfig \<Rightarrow> real \<Rightarrow> rng \<Rightarrow> real" where
  "spiralFinalAngle c t g =
     (real_of_int \<lfloor>g 0 * real_of_int (armCount c)\<rfloor> * 2 * pi) / real_of_int (armCount c)
     + g 1 * galaxyRadius c * t
     + (g 2 - 0.5) * 0.5 * (3 / real_of_int (armCount c))"

fun samples :: "(rng \<Rightarrow> StarSample \<times> rng) \<Rightarrow> nat \<Rightarrow> rng \<Rightarrow> StarSample list" where
  "samples body 0 g = []"
| "samples body (Suc n) g = fst (body g) # samples body n (snd (body g))"

fun rng_after :: "(rng \<Rightarrow> StarSample \<times> rng) \<Rightarrow> nat \<Rightarrow> rng \<Rightarrow> rng" where
  "rng_after body 0 g = g"
| "rng_after body (Suc n) g = rng_after body n (snd (body g))"

definition pushAll :: "StarArrays \<Rightarrow> StarSample list \<Rightarrow> StarArrays" where
  "pushAll a ss =
     \<lparr>positions = positions a @ concat (map (\<lambda>s. [star_x s, Some (star_y s), star_z s]) ss),
      colors = colors a
        @ concat (map (\<lambda>s. [col_r (star_color s), col_g (star_color s), col_b (star_color s)]) ss),
      sizes = sizes a @ map star_size ss\<rparr>"

definition bulgeRadius :: "GalaxyConfig \<Rightarrow> rng \<Rightarrow> real" where
  "bulgeRadius c g = g 0 * g 1 * coreSize c"

definition testConfig :: GalaxyConfig where
  "testConfig =
     \<lparr>starCount = 1000, armCount = 4, galaxyRadius = 100, rotationSpeed = 0.1, coreSize = 10,
      starColors = [setHex 0xffffff, setHex 0xffddaa, setHex 0xaaddff], particleSize = 0.1,
      brightness = None\<rparr>"

definition axisDistance :: "number list \<Rightarrow> nat \<Rightarrow> number" where
  "axisDistance ps i =
     (case (get ps (3 * i), get ps (3 * i + 2)) of
        (Some x, Some z) \<Rightarrow> Some (sqrt (x * x + z * z))
      | _ \<Rightarrow> None)"

definition constantRandom :: "real \<Rightarrow> rng" where
  "constantRandom v = (\<lambda>n. v)"

definition smallGalaxy :: GalaxyConfig where
  "smallGalaxy = testConfig\<lparr>starCount := 1, galaxyRadius := 10\<rparr>"

definition noArms :: GalaxyConfig where
  "noArms = testConfig\<lparr>starCount := 1, armCount := 0\<rparr>"

definition scaleColor :: "real \<Rightarrow> StarSample \<Rightarrow> StarSample" where
  "scaleColor k s = s\<lparr>star_color := multiplyScalar (star_color s) k\<rparr>"

definition isBlack :: "Color \<Rightarrow> bool" where
  "isBlack c = (col_r c = 0 \<and> col_g c = 0 \<and> col_b c = 0)"

definition blackPalette :: GalaxyConfig where
  "blackPalette =
     testConfig\<lparr>starCount := 1, starColors := [\<lparr>col_r = 0, col_g = 0, col_b = 0\<rparr>],
       brightness := Some 0\<rparr>"

text \<open>
  For the optimizer: \<open>renderable\<close> is the pair of tests a star passes to be pushed,
  \<open>bucket camera ps cs ss m level\<close> lists, in order, the stars among the first \<open>m\<close>
  that are pushed for \<open>level\<close>. The two cameras stand at the renderer's initial camera
  position and look along \<open>-z\<close>; their view volumes are the half-spaces in front of a
  near plane at distance 0.1 (as the renderer's perspective camera has it) and at
  distance \<open>-10\<close> (behind the camera, as an orthographic camera may have it).
\<close>

definition renderable :: "Camera \<Rightarrow> real list \<Rightarrow> real list \<Rightarrow> real list \<Rightarrow> nat \<Rightarrow> bool" where
  "renderable camera ps cs ss i =
     (\<not> distance (starEntry camera ps cs ss i) > 800
      \<and> isPointVisible camera (position (starEntry camera ps cs ss i)))"

definition bucket :: "Camera \<Rightarrow> real list \<Rightarrow> real list \<Rightarrow> real list \<Rightarrow> nat \<Rightarrow> nat \<Rightarrow> nat list" where
  "bucket camera ps cs ss m level =
     filter (\<lambda>i. renderable camera ps cs ss i
                 \<and> getLODLevel (distance (starEntry camera ps cs ss i)) = level) [0..<m]"

definition perspectiveCamera :: Camera where
  "perspectiveCamera =
     \<lparr>cameraPosition = \<lparr>vec_x = 0, vec_y = 30, vec_z = 100\<rparr>,
      frustumContains = (\<lambda>p. 1 / 10 \<le> 100 - vec_z p)\<rparr>"

definition orthographicCamera :: Camera where
  "orthographicCamera =
     \<lparr>cameraPosition = \<lparr>vec_x = 0, vec_y = 30, vec_z = 100\<rparr>,
      frustumContains = (\<lambda>p. - 10 \<le> 100 - vec_z p)\<rparr>"

text \<open>
  Two runs of the renderer with one star, each a configuration and the values that
  \<^verbatim>\<open>Math.random()\<close> returns: the first puts the star at \<open>(0, 2, 0)\<close>, above the
  centre; the second puts it at \<open>(2, 0, 0)\<close> with angular velocity \<open>\<pi>\<close>.
\<close>

definition sequenceRandom :: "real list \<Rightarrow> rng" where
  "sequenceRandom xs = (\<lambda>n. if n < length xs then xs ! n else 0)"

definition offPlaneConfig :: GalaxyConfig where
  "offPlaneConfig = testConfig\<lparr>starCount := 1, rotationSpeed := 1\<rparr>"

definition offPlaneDraws :: rng where
  "offPlaneDraws = sequenceRandom [0, 0, 1 / 2, 1 / 2, 9 / 10, 0, 0]"

definition spinConfig :: GalaxyConfig where
  "spinConfig = testConfig\<lparr>starCount := 1, rotationSpeed := 5 * pi\<rparr>"

definition spinDraws :: rng where
  "spinDraws = sequenceRandom [0, 0, 1 / 2, 7 / 10, 1 / 2, 0, 0]"

section \<open>Properties\<close>

subsection \<open>The rotation curve\<close>

lemma calculateAngularVelocity_outer:
  "30 \<le> radius \<Longrightarrow> calculateAngularVelocity radius s = s * (30 / radius) powr 0.3"
  by (simp add: calculateAngularVelocity_def)

lemma outer_factor_decreasing:
  assumes "30 \<le> r1" "r1 < (r2::real)"
  shows "(30 / r2) powr 0.3 < (30 / r1) powr 0.3"
proof -
  have "30 / r2 < 30 / r1" using assms by (simp add: frac_less2)
  moreover have "0 \<le> 30 / r2" using assms by simp
  ultimately show ?thesis by (intro powr_less_mono2) simp_all
qed

text \<open>
  C4. \<open>calculateAngularVelocity\<close> is the piecewise curve of the specification: the
  linear ramp below 10 (zero at radius 0 for every speed), the plateau on \<open>[10, 30)\<close>,
  the power law from 30 on. For a positive speed it is strictly decreasing and never
  zero from 30 on, and for a fixed radius it is linear in the speed.
\<close>

theorem calculateAngularVelocity_piecewise:
  "calculateAngularVelocity radius s = angularVelocity_reference radius s
   \<and> calculateAngularVelocity 0 s = 0
   \<and> (0 < s \<and> 30 \<le> r1 \<and> r1 < r2
        \<longrightarrow> calculateAngularVelocity r2 s < calculateAngularVelocity r1 s)
   \<and> (0 < s \<and> 30 \<le> radius \<longrightarrow> calculateAngularVelocity radius s \<noteq> 0)
   \<and> calculateAngularVelocity radius (k * s) = k * calculateAngularVelocity radius s
   \<and> calculateAngularVelocity radius (s1 + s2)
       = calculateAngularVelocity radius s1 + calculateAngularVelocity radius s2"
proof -
  have ref: "calculateAngularVelocity radius s = angularVelocity_reference radius s"
    by (simp add: calculateAngularVelocity_def angularVelocity_reference_def)
  have zero: "calculateAngularVelocity 0 s = 0"
    by (simp add: calculateAngularVelocity_def)
  have decr: "calculateAngularVelocity r2 s < calculateAngularVelocity r1 s"
    if "0 < s" "30 \<le> r1" "r1 < r2"
  proof -
    have "s * (30 / r2) powr 0.3 < s * (30 / r1) powr 0.3"
      using outer_factor_decreasing [OF that(2,3)] that(1) by simp
    then show ?thesis
      using that by (simp add: calculateAngularVelocity_outer)
  qed
  have nonzero: "calculateAngularVelocity radius s \<noteq> 0" if "0 < s" "30 \<le> radius"
    using that by (simp add: calculateAngularVelocity_outer)
  have scale: "calculateAngularVelocity radius (k * s) = k * calculateAngularVelocity radius s"
    by (simp add: calculateAngularVelocity_def)
  have add: "calculateAngularVelocity radius (s1 + s2)
       = calculateAngularVelocity radius s1 + calculateAngularVelocity radius s2"
    by (simp add: calculateAngularVelocity_def algebra_simps)
  show ?thesis
    using ref zero decr nonzero scale add by blast
qed

theorem calculateAngularVelocity_piecewise_witness:
  "calculateAngularVelocity 60 1 < calculateAngularVelocity 30 1
   \<and> calculateAngularVelocity 30 1 \<noteq> 0
   \<and> calculateAngularVelocity 30 1 = angularVelocity_reference 30 1
   \<and> calculateAngularVelocity 30 (2 * 1) = 2 * calculateAngularVelocity 30 1"
  using calculateAngularVelocity_piecewise [of 30 1 30 60 2 0 0] by simp

subsection \<open>The generation loops\<close>

lemma valid_rng_random: "valid_rng g \<Longrightarrow> valid_rng (snd (random g))"
  by (simp add: valid_rng_def random_def)

lemma valid_rng_shift: "valid_rng g \<Longrightarrow> valid_rng (\<lambda>n. g (Suc n))"
  by (simp add: valid_rng_def)

lemma valid_rng_starBaseColor:
  "valid_rng g \<Longrightarrow> valid_rng (snd (starBaseColor c q g))"
  by (simp add: starBaseColor_def random_def Let_def split_def valid_rng_def)

lemma valid_rng_spiralStar:
  "valid_rng g \<Longrightarrow> valid_rng (snd (spiralStar c t g))"
  unfolding spiralStar_def Let_def split_def
  by (simp add: valid_rng_starBaseColor valid_rng_random)

lemma valid_rng_bulgeStar:
  "valid_rng g \<Longrightarrow> valid_rng (snd (bulgeStar c g))"
  unfolding bulgeStar_def Let_def split_def
  by (simp add: valid_rng_random)

lemma spiralStar_xz_finite:
  assumes "armCount c \<noteq> 0"
  shows "star_x (fst (spiralStar c t g)) = Some (cos (spiralFinalAngle c t g) * spiralFinalRadius c g)"
    and "star_z (fst (spiralStar c t g)) = Some (sin (spiralFinalAngle c t g) * spiralFinalRadius c g)"
  using assms
  unfolding spiralStar_def Let_def split_def spiralFinalAngle_def spiralFinalRadius_def
  by (simp_all add: random_def js_div_def num_add_def eval_nat_numeral)

lemma spiralStar_xz_nan:
  assumes "armCount c = 0"
  shows "star_x (fst (spiralStar c t g)) = None \<and> star_z (fst (spiralStar c t g)) = None"
  using assms
  unfolding spiralStar_def Let_def split_def
  by (simp add: random_def js_div_def num_add_def)

lemma spiralStar_y:
  "star_y (fst (spiralStar c t g)) = (g 4 - 0.5) * 5 * exp (- spiralFinalRadius c g / 30)"
  unfolding spiralStar_def Let_def split_def spiralFinalRadius_def
  by (simp add: random_def eval_nat_numeral)

lemma axis_distance_polar:
  assumes "0 \<le> r"
  shows "sqrt ((cos a * r) * (cos a * r) + (sin a * r) * (sin a * r)) = r"
proof -
  have "(cos a * r) * (cos a * r) + (sin a * r) * (sin a * r)
        = (cos a * r)\<^sup>2 + (sin a * r)\<^sup>2"
    by (simp only: power2_eq_square)
  also have "\<dots> = ((cos a)\<^sup>2 + (sin a)\<^sup>2) * r\<^sup>2"
    by (simp only: power_mult_distrib distrib_right)
  also have "\<dots> = r\<^sup>2"
    by (simp only: sin_cos_squared_add2 mult_1)
  finally have e: "(cos a * r) * (cos a * r) + (sin a * r) * (sin a * r) = r\<^sup>2" .
  show ?thesis
    by (simp only: e real_sqrt_abs abs_of_nonneg [OF assms])
qed

lemma spiralFinalRadius_bounds:
  assumes "valid_rng g" "0 < galaxyRadius c"
  shows "0 \<le> spiralFinalRadius c g" "spiralFinalRadius c g < galaxyRadius c + 5"
proof -
  have g1: "0 \<le> g 1" "g 1 < 1" and g3: "g 3 < 1" using assms(1) by (auto simp: valid_rng_def)
  show "0 \<le> spiralFinalRadius c g" by (simp add: spiralFinalRadius_def)
  have a: "g 1 * galaxyRadius c < galaxyRadius c"
    using g1 assms(2) by simp
  have b: "(g 3 - 0.5) * 10 < 5"
    using g3 by simp
  have "g 1 * galaxyRadius c + (g 3 - 0.5) * 10 < galaxyRadius c + 5"
    using a b by linarith
  then show "spiralFinalRadius c g < galaxyRadius c + 5"
    using assms(2) unfolding spiralFinalRadius_def by linarith
qed

lemma pushAll_Nil: "pushAll a [] = a"
  by (simp add: pushAll_def)

lemma pushAll_Cons: "pushAll a (s # ss) = pushAll (pushStar a s) ss"
  by (simp add: pushAll_def pushStar_def)

lemma spiralArmsLoop_samples:
  "spiralArmsLoop c t n a g
   = (pushAll a (samples (spiralStar c t) n g), rng_after (spiralStar c t) n g)"
  by (induction n arbitrary: a g) (simp_all add: pushAll_Nil pushAll_Cons split_def Let_def)

lemma bulgeLoop_samples:
  "bulgeLoop c n a g = (pushAll a (samples (bulgeStar c) n g), rng_after (bulgeStar c) n g)"
  by (induction n arbitrary: a g) (simp_all add: pushAll_Nil pushAll_Cons split_def Let_def)

lemma length_samples: "length (samples body n g) = n"
  by (induction n arbitrary: g) simp_all

lemma samples_nth:
  "i < n \<Longrightarrow> samples body n g ! i = fst (body (rng_after body i g))"
proof (induction n arbitrary: g i)
  case 0
  then show ?case by simp
next
  case (Suc n)
  show ?case
  proof (cases i)
    case 0
    then show ?thesis by simp
  next
    case (Suc j)
    with Suc.prems have "j < n" by simp
    then show ?thesis using Suc.IH [of j] Suc by simp
  qed
qed

lemma valid_rng_after:
  assumes "\<And>g. valid_rng g \<Longrightarrow> valid_rng (snd (body g))" "valid_rng g"
  shows "valid_rng (rng_after body n g)"
  using assms(2) by (induction n arbitrary: g) (simp_all add: assms(1))

lemma length_concat_triples: "length (concat (map (\<lambda>s. [f s, h s, k s]) ss)) = 3 * length ss"
  by (induction ss) simp_all

lemma nth_concat_triples:
  assumes "i < length ss"
  shows "concat (map (\<lambda>s. [f s, h s, k s]) ss) ! (3 * i) = f (ss ! i)"
    and "concat (map (\<lambda>s. [f s, h s, k s]) ss) ! (3 * i + 1) = h (ss ! i)"
    and "concat (map (\<lambda>s. [f s, h s, k s]) ss) ! (3 * i + 2) = k (ss ! i)"
  using assms
proof (induction ss arbitrary: i)
  case Nil
  { case 1 then show ?case by simp }
  { case 2 then show ?case by simp }
  { case 3 then show ?case by simp }
next
  case (Cons s ss)
  { case 1 then show ?case using Cons.IH(1) [of "i - 1"] by (cases i) (simp_all add: algebra_simps) }
  { case 2 then show ?case using Cons.IH(2) [of "i - 1"] by (cases i) (simp_all add: algebra_simps) }
  { case 3 then show ?case using Cons.IH(3) [of "i - 1"] by (cases i) (simp_all add: algebra_simps) }
qed

lemma generateSpiralArms_samples:
  "fst (generateSpiralArms c t g)
   = pushAll \<lparr>positions = [], colors = [], sizes = []\<rparr>
       (samples (spiralStar c (adjustedTightness c t)) (nat (starCount c)) g)"
  by (simp add: generateSpiralArms_def spiralArmsLoop_samples)

lemma addCentralBulge_samples:
  "fst (addCentralBulge c ps cs ss n g)
   = pushAll \<lparr>positions = ps, colors = cs, sizes = ss\<rparr> (samples (bulgeStar c) (nat n) g)"
  by (simp add: addCentralBulge_def bulgeLoop_samples)

lemma pushAll_lengths:
  "length (positions (pushAll a xs)) = length (positions a) + 3 * length xs"
  "length (colors (pushAll a xs)) = length (colors a) + 3 * length xs"
  "length (sizes (pushAll a xs)) = length (sizes a) + length xs"
  by (simp_all add: pushAll_def length_concat_triples)

text \<open>
  C9. For a non-negative \<open>starCount\<close>, \<^verbatim>\<open>generateSpiralArms\<close> returns
  \<open>3 * starCount\<close> positions, \<open>3 * starCount\<close> colour channels and \<open>starCount\<close>
  sizes (empty arrays for \<open>starCount = 0\<close>), whatever the rest of the configuration;
  and \<^verbatim>\<open>addCentralBulge\<close> keeps the arrays parallel: from arrays with
  \<open>len(positions)/3 = len(colors)/3 = len(sizes)\<close> it returns arrays with the same
  relation.
\<close>

theorem generateSpiralArms_lengths:
  "(0 \<le> starCount config \<longrightarrow>
      int (length (positions (fst (generateSpiralArms config tightness g)))) = 3 * starCount config
    \<and> int (length (colors (fst (generateSpiralArms config tightness g)))) = 3 * starCount config
    \<and> int (length (sizes (fst (generateSpiralArms config tightness g)))) = starCount config)
   \<and> (starCount config = 0 \<longrightarrow>
        fst (generateSpiralArms config tightness g) = \<lparr>positions = [], colors = [], sizes = []\<rparr>)
   \<and> (length ps = 3 * length ss \<and> length cs = 3 * length ss \<longrightarrow>
        length (positions (fst (addCentralBulge config ps cs ss bulgeStars g')))
          = 3 * length (sizes (fst (addCentralBulge config ps cs ss bulgeStars g')))
      \<and> length (colors (fst (addCentralBulge config ps cs ss bulgeStars g')))
          = 3 * length (sizes (fst (addCentralBulge config ps cs ss bulgeStars g'))))"
  by (simp add: generateSpiralArms_samples addCentralBulge_samples pushAll_lengths
      length_samples pushAll_Nil)

theorem generateSpiralArms_lengths_witness:
  "0 \<le> starCount testConfig
   \<and> int (length (positions (fst (generateSpiralArms testConfig 0.3 (\<lambda>n. 1 / 2))))) = 3000
   \<and> int (length (colors (fst (generateSpiralArms testConfig 0.3 (\<lambda>n. 1 / 2))))) = 3000
   \<and> int (length (sizes (fst (generateSpiralArms testConfig 0.3 (\<lambda>n. 1 / 2))))) = 1000
   \<and> length (positions (fst (addCentralBulge testConfig [] [] [] 500 (\<lambda>n. 1 / 2))))
       = 3 * length (sizes (fst (addCentralBulge testConfig [] [] [] 500 (\<lambda>n. 1 / 2))))
   \<and> length (colors (fst (addCentralBulge testConfig [] [] [] 500 (\<lambda>n. 1 / 2))))
       = 3 * length (sizes (fst (addCentralBulge testConfig [] [] [] 500 (\<lambda>n. 1 / 2))))"
proof -
  have c: "starCount testConfig = 1000" by (simp add: testConfig_def)
  show ?thesis
    using generateSpiralArms_lengths
      [of testConfig "0.3" "\<lambda>n. 1 / 2" "[]" "[]" "[]" 500 "\<lambda>n. 1 / 2"]
    by (simp add: c)
qed

lemma rng_index:
  "(g::rng) 1 = g (Suc 0)" "g 2 = g (Suc (Suc 0))" "g 3 = g (Suc (Suc (Suc 0)))"
  "g 4 = g (Suc (Suc (Suc (Suc 0))))" "g 5 = g (Suc (Suc (Suc (Suc (Suc 0)))))"
  "g 6 = g (Suc (Suc (Suc (Suc (Suc (Suc 0))))))"
  "g 7 = g (Suc (Suc (Suc (Suc (Suc (Suc (Suc 0)))))))"
  by (simp_all add: eval_nat_numeral)

lemma bulgeStar_fst:
  "fst (bulgeStar c g) =
     \<lparr>star_x = Some (bulgeRadius c g * sin (arccos (2 * g 3 - 1)) * cos (g 2 * 2 * pi)),
      star_y = bulgeRadius c g * cos (arccos (2 * g 3 - 1)) * 0.3,
      star_z = Some (bulgeRadius c g * sin (arccos (2 * g 3 - 1)) * sin (g 2 * 2 * pi)),
      star_color = multiplyScalar (lerpColors (setHex 0xffaa66) (setHex 0xff8844) (g 4)) (brightnessValue c),
      star_size = particleSize c * (1.5 + g 5)\<rparr>"
  by (simp only: bulgeStar_def Let_def split_def bulgeRadius_def random_def fst_conv snd_conv rng_index)

lemma cos_sin_square_sum: "cos t * cos t + sin t * sin t = (1::real)"
  using sin_cos_squared_add2 [of t] by (simp only: power2_eq_square)

lemma bulge_distance_le:
  assumes "0 \<le> r"
  shows "sqrt ((r * sin p * cos t) * (r * sin p * cos t)
               + (r * cos p * 0.3) * (r * cos p * 0.3)
               + (r * sin p * sin t) * (r * sin p * sin t)) \<le> r"
proof -
  have xz: "(r * sin p * cos t) * (r * sin p * cos t) + (r * sin p * sin t) * (r * sin p * sin t)
            = (r * sin p) * (r * sin p) * (cos t * cos t + sin t * sin t)"
    by (simp only: distrib_left mult_ac)
  have xz': "(r * sin p * cos t) * (r * sin p * cos t) + (r * sin p * sin t) * (r * sin p * sin t)
            = (r * r) * (sin p * sin p)"
    unfolding xz cos_sin_square_sum by (simp only: mult_1_right mult_ac)
  have y: "(r * cos p * 0.3) * (r * cos p * 0.3) \<le> (r * r) * (cos p * cos p)"
  proof -
    have "(r * cos p * 0.3) * (r * cos p * 0.3) = ((r * cos p) * (r * cos p)) * 0.09"
      by simp
    also have "\<dots> \<le> ((r * cos p) * (r * cos p)) * 1"
      by (intro mult_left_mono) simp_all
    also have "\<dots> = (r * r) * (cos p * cos p)"
      by (simp only: mult_1_right mult_ac)
    finally show ?thesis .
  qed
  have "(r * sin p * cos t) * (r * sin p * cos t) + (r * cos p * 0.3) * (r * cos p * 0.3)
          + (r * sin p * sin t) * (r * sin p * sin t)
        \<le> (r * r) * (sin p * sin p) + (r * r) * (cos p * cos p)"
    using xz' y by linarith
  also have "\<dots> = (r * r) * (cos p * cos p + sin p * sin p)"
    by (simp only: distrib_left add.commute)
  also have "\<dots> = r * r"
    by (simp only: cos_sin_square_sum mult_1_right)
  finally have "sqrt ((r * sin p * cos t) * (r * sin p * cos t) + (r * cos p * 0.3) * (r * cos p * 0.3)
          + (r * sin p * sin t) * (r * sin p * sin t)) \<le> sqrt (r * r)"
    by (rule real_sqrt_le_mono)
  moreover have "sqrt (r * r) = r"
    using assms by simp
  ultimately show ?thesis by (simp only:)
qed

lemma bulgeRadius_bounds:
  assumes "valid_rng g" "0 \<le> coreSize c"
  shows "0 \<le> bulgeRadius c g" "bulgeRadius c g \<le> coreSize c"
proof -
  have g: "0 \<le> g 0" "g 0 < 1" "0 \<le> g 1" "g 1 < 1"
    using assms(1) by (auto simp: valid_rng_def)
  have p: "0 \<le> g 0 * g 1" using g by simp
  have "g 0 * g 1 \<le> 1 * 1" using g by (intro mult_mono) simp_all
  then have q: "g 0 * g 1 \<le> 1" by simp
  show "0 \<le> bulgeRadius c g"
    unfolding bulgeRadius_def using p assms(2) by simp
  have "g 0 * g 1 * coreSize c \<le> 1 * coreSize c"
    using q assms(2) by (intro mult_right_mono) simp_all
  then show "bulgeRadius c g \<le> coreSize c"
    unfolding bulgeRadius_def by simp
qed

lemma bulgeStar_within:
  assumes "valid_rng g" "0 \<le> coreSize c" "0 < particleSize c"
  shows "\<exists>x z. star_x (fst (bulgeStar c g)) = Some x \<and> star_z (fst (bulgeStar c g)) = Some z
           \<and> sqrt (x * x + star_y (fst (bulgeStar c g)) * star_y (fst (bulgeStar c g)) + z * z)
               \<le> coreSize c * 1.2"
    and "particleSize c < star_size (fst (bulgeStar c g))"
proof -
  let ?r = "bulgeRadius c g"
  have r: "0 \<le> ?r" "?r \<le> coreSize c" using bulgeRadius_bounds [OF assms(1,2)] by auto
  have "sqrt ((?r * sin (arccos (2 * g 3 - 1)) * cos (g 2 * 2 * pi))
              * (?r * sin (arccos (2 * g 3 - 1)) * cos (g 2 * 2 * pi))
            + (?r * cos (arccos (2 * g 3 - 1)) * 0.3) * (?r * cos (arccos (2 * g 3 - 1)) * 0.3)
            + (?r * sin (arccos (2 * g 3 - 1)) * sin (g 2 * 2 * pi))
              * (?r * sin (arccos (2 * g 3 - 1)) * sin (g 2 * 2 * pi))) \<le> ?r"
    by (rule bulge_distance_le [OF r(1)])
  moreover have "?r \<le> coreSize c * 1.2" using r assms(2) by simp
  ultimately have "sqrt ((?r * sin (arccos (2 * g 3 - 1)) * cos (g 2 * 2 * pi))
              * (?r * sin (arccos (2 * g 3 - 1)) * cos (g 2 * 2 * pi))
            + (?r * cos (arccos (2 * g 3 - 1)) * 0.3) * (?r * cos (arccos (2 * g 3 - 1)) * 0.3)
            + (?r * sin (arccos (2 * g 3 - 1)) * sin (g 2 * 2 * pi))
              * (?r * sin (arccos (2 * g 3 - 1)) * sin (g 2 * 2 * pi))) \<le> coreSize c * 1.2"
    by (rule order_trans)
  then show "\<exists>x z. star_x (fst (bulgeStar c g)) = Some x \<and> star_z (fst (bulgeStar c g)) = Some z
           \<and> sqrt (x * x + star_y (fst (bulgeStar c g)) * star_y (fst (bulgeStar c g)) + z * z)
               \<le> coreSize c * 1.2"
    by (simp only: bulgeStar_fst StarSample.simps) blast
  have "0 \<le> g 5" using assms(1) by (simp add: valid_rng_def)
  then have "1 < 1.5 + g 5" by simp
  then have "particleSize c * 1 < particleSize c * (1.5 + g 5)"
    using assms(3) by (intro mult_strict_left_mono) simp_all
  then show "particleSize c < star_size (fst (bulgeStar c g))"
    by (simp add: bulgeStar_fst)
qed

lemma valid_rng_bulge_after:
  "valid_rng g \<Longrightarrow> valid_rng (rng_after (bulgeStar c) i g)"
  by (rule valid_rng_after) (simp_all add: valid_rng_bulgeStar)

lemma pushAll_nth:
  assumes "i < length xs"
  shows "positions (pushAll a xs) ! (length (positions a) + 3 * i) = star_x (xs ! i)"
    and "positions (pushAll a xs) ! (length (positions a) + 3 * i + 1) = Some (star_y (xs ! i))"
    and "positions (pushAll a xs) ! (length (positions a) + 3 * i + 2) = star_z (xs ! i)"
    and "sizes (pushAll a xs) ! (length (sizes a) + i) = star_size (xs ! i)"
  using assms nth_concat_triples [OF assms, of star_x "\<lambda>s. Some (star_y s)" star_z]
  by (simp_all add: pushAll_def nth_append add.assoc)

lemma pushAll_take:
  "take (length (positions a)) (positions (pushAll a xs)) = positions a"
  "take (length (colors a)) (colors (pushAll a xs)) = colors a"
  "take (length (sizes a)) (sizes (pushAll a xs)) = sizes a"
  by (simp_all add: pushAll_def)

text \<open>
  C8. For \<open>coreSize \<ge> 0\<close>, \<open>particleSize > 0\<close>, any input arrays and any
  \<open>N \<ge> 0\<close>, \<^verbatim>\<open>addCentralBulge\<close> appends exactly \<open>N\<close> stars: the arrays grow
  by \<open>3N\<close>, \<open>3N\<close> and \<open>N\<close> entries and begin with the entries they had; every
  appended star lies within \<open>coreSize * 1.2\<close> of the origin and is larger than
  \<open>particleSize\<close>; for \<open>N = 0\<close> the arrays come back as they were.
\<close>

theorem addCentralBulge_appends:
  assumes "0 \<le> coreSize config" and "0 < particleSize config" and "valid_rng g" and "0 \<le> N"
  shows "length (positions (fst (addCentralBulge config ps cs ss N g))) = length ps + 3 * nat N
       \<and> length (colors (fst (addCentralBulge config ps cs ss N g))) = length cs + 3 * nat N
       \<and> length (sizes (fst (addCentralBulge config ps cs ss N g))) = length ss + nat N
       \<and> take (length ps) (positions (fst (addCentralBulge config ps cs ss N g))) = ps
       \<and> take (length cs) (colors (fst (addCentralBulge config ps cs ss N g))) = cs
       \<and> take (length ss) (sizes (fst (addCentralBulge config ps cs ss N g))) = ss
       \<and> (\<forall>i < nat N. \<exists>x y z.
             positions (fst (addCentralBulge config ps cs ss N g)) ! (length ps + 3 * i) = Some x
           \<and> positions (fst (addCentralBulge config ps cs ss N g)) ! (length ps + 3 * i + 1) = Some y
           \<and> positions (fst (addCentralBulge config ps cs ss N g)) ! (length ps + 3 * i + 2) = Some z
           \<and> sqrt (x * x + y * y + z * z) \<le> coreSize config * 1.2
           \<and> particleSize config < sizes (fst (addCentralBulge config ps cs ss N g)) ! (length ss + i))
       \<and> fst (addCentralBulge config ps cs ss 0 g) = \<lparr>positions = ps, colors = cs, sizes = ss\<rparr>"
proof -
  let ?a = "\<lparr>positions = ps, colors = cs, sizes = ss\<rparr>"
  let ?xs = "samples (bulgeStar config) (nat N) g"
  have out: "fst (addCentralBulge config ps cs ss N g) = pushAll ?a ?xs"
    by (rule addCentralBulge_samples)
  have len: "length ?xs = nat N" by (rule length_samples)
  have stars: "\<exists>x y z.
             positions (pushAll ?a ?xs) ! (length ps + 3 * i) = Some x
           \<and> positions (pushAll ?a ?xs) ! (length ps + 3 * i + 1) = Some y
           \<and> positions (pushAll ?a ?xs) ! (length ps + 3 * i + 2) = Some z
           \<and> sqrt (x * x + y * y + z * z) \<le> coreSize config * 1.2
           \<and> particleSize config < sizes (pushAll ?a ?xs) ! (length ss + i)" if i: "i < nat N" for i
  proof -
    let ?g = "rng_after (bulgeStar config) i g"
    have v: "valid_rng ?g" using assms(3) by (rule valid_rng_bulge_after)
    have s: "?xs ! i = fst (bulgeStar config ?g)" using i by (rule samples_nth)
    have il: "i < length ?xs" using i len by simp
    obtain x z where xz: "star_x (fst (bulgeStar config ?g)) = Some x"
        "star_z (fst (bulgeStar config ?g)) = Some z"
        "sqrt (x * x + star_y (fst (bulgeStar config ?g)) * star_y (fst (bulgeStar config ?g)) + z * z)
               \<le> coreSize config * 1.2"
      using bulgeStar_within(1) [OF v assms(1,2)] by blast
    have sz: "particleSize config < star_size (fst (bulgeStar config ?g))"
      using bulgeStar_within(2) [OF v assms(1,2)] .
    show ?thesis
      using pushAll_nth [OF il, of ?a] xz sz by (simp add: s)
  qed
  have lens: "length (positions (pushAll ?a ?xs)) = length ps + 3 * nat N"
      "length (colors (pushAll ?a ?xs)) = length cs + 3 * nat N"
      "length (sizes (pushAll ?a ?xs)) = length ss + nat N"
    by (simp_all add: pushAll_lengths len)
  have takes: "take (length ps) (positions (pushAll ?a ?xs)) = ps"
      "take (length cs) (colors (pushAll ?a ?xs)) = cs"
      "take (length ss) (sizes (pushAll ?a ?xs)) = ss"
    using pushAll_take [of ?a ?xs] by simp_all
  have noop: "fst (addCentralBulge config ps cs ss 0 g) = ?a"
    by (simp add: addCentralBulge_samples pushAll_Nil)
  show ?thesis
    unfolding out using lens takes stars noop by blast
qed

theorem addCentralBulge_appends_witness:
  "0 \<le> coreSize testConfig \<and> 0 < particleSize testConfig \<and> valid_rng (\<lambda>n. 1 / 2)
   \<and> length (positions (fst (addCentralBulge testConfig [] [] [] 1 (\<lambda>n. 1 / 2)))) = 3
   \<and> length (sizes (fst (addCentralBulge testConfig [] [] [] 1 (\<lambda>n. 1 / 2)))) = 1
   \<and> (\<exists>x y z.
         positions (fst (addCentralBulge testConfig [] [] [] 1 (\<lambda>n. 1 / 2))) ! 0 = Some x
       \<and> positions (fst (addCentralBulge testConfig [] [] [] 1 (\<lambda>n. 1 / 2))) ! 1 = Some y
       \<and> positions (fst (addCentralBulge testConfig [] [] [] 1 (\<lambda>n. 1 / 2))) ! 2 = Some z
       \<and> sqrt (x * x + y * y + z * z) \<le> coreSize testConfig * 1.2
       \<and> particleSize testConfig
            < sizes (fst (addCentralBulge testConfig [] [] [] 1 (\<lambda>n. 1 / 2))) ! 0)"
proof -
  have h: "0 \<le> coreSize testConfig" "0 < particleSize testConfig" "valid_rng (\<lambda>n. 1 / 2)"
    "(0::int) \<le> 1"
    by (simp_all add: testConfig_def valid_rng_def)
  show ?thesis
    using h(1-3) addCentralBulge_appends [OF h, of "[]" "[]" "[]"]
    by (simp add: numeral_2_eq_2)
qed

lemma valid_rng_constantRandom: "0 \<le> v \<Longrightarrow> v < 1 \<Longrightarrow> valid_rng (constantRandom v)"
  by (simp add: valid_rng_def constantRandom_def)

lemma valid_rng_spiral_after:
  "valid_rng g \<Longrightarrow> valid_rng (rng_after (spiralStar c t) i g)"
  by (rule valid_rng_after) (simp_all add: valid_rng_spiralStar)

lemma samples_from_body:
  "s \<in> set (samples body n g) \<Longrightarrow> \<exists>g'. s = fst (body g')"
  by (induction n arbitrary: g) auto

text \<open>Star \<open>i\<close> of the arrays that \<^verbatim>\<open>generateSpiralArms\<close> returns.\<close>

lemma generateSpiralArms_star:
  assumes "i < nat (starCount c)"
  shows "positions (fst (generateSpiralArms c t g)) ! (3 * i)
           = star_x (fst (spiralStar c (adjustedTightness c t)
               (rng_after (spiralStar c (adjustedTightness c t)) i g)))"
    and "positions (fst (generateSpiralArms c t g)) ! (3 * i + 1)
           = Some (star_y (fst (spiralStar c (adjustedTightness c t)
               (rng_after (spiralStar c (adjustedTightness c t)) i g))))"
    and "positions (fst (generateSpiralArms c t g)) ! (3 * i + 2)
           = star_z (fst (spiralStar c (adjustedTightness c t)
               (rng_after (spiralStar c (adjustedTightness c t)) i g)))"
proof -
  let ?xs = "samples (spiralStar c (adjustedTightness c t)) (nat (starCount c)) g"
  have il: "i < length ?xs" using assms by (simp add: length_samples)
  have s: "?xs ! i = fst (spiralStar c (adjustedTightness c t)
               (rng_after (spiralStar c (adjustedTightness c t)) i g))"
    using assms by (rule samples_nth)
  note n = pushAll_nth [OF il, of "\<lparr>positions = [], colors = [], sizes = []\<rparr>"]
  show "positions (fst (generateSpiralArms c t g)) ! (3 * i)
           = star_x (fst (spiralStar c (adjustedTightness c t)
               (rng_after (spiralStar c (adjustedTightness c t)) i g)))"
    using n(1) by (simp add: generateSpiralArms_samples s)
  show "positions (fst (generateSpiralArms c t g)) ! (3 * i + 1)
           = Some (star_y (fst (spiralStar c (adjustedTightness c t)
               (rng_after (spiralStar c (adjustedTightness c t)) i g))))"
    using n(2) by (simp add: generateSpiralArms_samples s)
  show "positions (fst (generateSpiralArms c t g)) ! (3 * i + 2)
           = star_z (fst (spiralStar c (adjustedTightness c t)
               (rng_after (spiralStar c (adjustedTightness c t)) i g)))"
    using n(3) by (simp add: generateSpiralArms_samples s)
qed

lemma generateSpiralArms_length_positions:
  "length (positions (fst (generateSpiralArms c t g))) = 3 * nat (starCount c)"
  by (simp add: generateSpiralArms_samples pushAll_lengths length_samples)

lemma generateSpiralArms_get:
  assumes "i < nat (starCount c)"
  shows "get (positions (fst (generateSpiralArms c t g))) (3 * i)
           = positions (fst (generateSpiralArms c t g)) ! (3 * i)"
    and "get (positions (fst (generateSpiralArms c t g))) (3 * i + 1)
           = positions (fst (generateSpiralArms c t g)) ! (3 * i + 1)"
    and "get (positions (fst (generateSpiralArms c t g))) (3 * i + 2)
           = positions (fst (generateSpiralArms c t g)) ! (3 * i + 2)"
  using assms by (simp_all add: get_def generateSpiralArms_length_positions)

lemma generateSpiralArms_axisDistance:
  assumes "i < nat (starCount c)" "armCount c \<noteq> 0"
  shows "axisDistance (positions (fst (generateSpiralArms c t g))) i
         = Some (spiralFinalRadius c (rng_after (spiralStar c (adjustedTightness c t)) i g))"
proof -
  let ?g = "rng_after (spiralStar c (adjustedTightness c t)) i g"
  have x: "get (positions (fst (generateSpiralArms c t g))) (3 * i)
           = Some (cos (spiralFinalAngle c (adjustedTightness c t) ?g) * spiralFinalRadius c ?g)"
    by (simp only: generateSpiralArms_get [OF assms(1)] generateSpiralArms_star [OF assms(1)]
        spiralStar_xz_finite [OF assms(2)])
  have z: "get (positions (fst (generateSpiralArms c t g))) (3 * i + 2)
           = Some (sin (spiralFinalAngle c (adjustedTightness c t) ?g) * spiralFinalRadius c ?g)"
    by (simp only: generateSpiralArms_get [OF assms(1)] generateSpiralArms_star [OF assms(1)]
        spiralStar_xz_finite [OF assms(2)])
  have "0 \<le> spiralFinalRadius c ?g" by (simp add: spiralFinalRadius_def)
  then show ?thesis
    by (simp only: axisDistance_def x z prod.case option.case axis_distance_polar)
qed

lemma spiralFinalRadius_nonneg: "0 \<le> spiralFinalRadius c g"
  by (simp add: spiralFinalRadius_def)

text \<open>
  C7, as the code has it. The radial jitter is an absolute \<open>\<plusminus>5\<close>, so the distance of a
  star from the vertical axis stays below \<open>galaxyRadius + 5\<close>; that is within
  \<open>galaxyRadius * 1.2\<close> when \<open>galaxyRadius\<close> is at least 25, and can exceed it for a
  smaller galaxy. (With \<open>armCount = 0\<close> the coordinates are not numbers at all.)
\<close>

theorem generateSpiralArms_axis_bound:
  assumes "0 < galaxyRadius config" and "armCount config \<noteq> 0" and "valid_rng g"
    and "i < nat (starCount config)"
  shows "\<exists>d. axisDistance (positions (fst (generateSpiralArms config tightness g))) i = Some d
           \<and> d < galaxyRadius config + 5
           \<and> (25 \<le> galaxyRadius config \<longrightarrow> d \<le> galaxyRadius config * 1.2)"
proof -
  let ?g = "rng_after (spiralStar config (adjustedTightness config tightness)) i g"
  have v: "valid_rng ?g" using assms(3) by (rule valid_rng_spiral_after)
  have b: "spiralFinalRadius config ?g < galaxyRadius config + 5"
    using spiralFinalRadius_bounds(2) [OF v assms(1)] .
  have d: "axisDistance (positions (fst (generateSpiralArms config tightness g))) i
           = Some (spiralFinalRadius config ?g)"
    using assms(4,2) by (rule generateSpiralArms_axisDistance)
  have "spiralFinalRadius config ?g \<le> galaxyRadius config * 1.2" if "25 \<le> galaxyRadius config"
    using b that by simp
  then show ?thesis using b d by blast
qed

theorem generateSpiralArms_axis_bound_witness:
  "0 < galaxyRadius testConfig \<and> armCount testConfig \<noteq> 0 \<and> valid_rng (constantRandom (1 / 2))
   \<and> (\<exists>d. axisDistance (positions (fst (generateSpiralArms testConfig 0.3 (constantRandom (1 / 2))))) 0
             = Some d
          \<and> d < galaxyRadius testConfig + 5 \<and> d \<le> galaxyRadius testConfig * 1.2)"
proof -
  have h: "0 < galaxyRadius testConfig" "armCount testConfig \<noteq> 0"
      "valid_rng (constantRandom (1 / 2))" "0 < nat (starCount testConfig)"
    by (simp_all add: testConfig_def valid_rng_constantRandom)
  have "25 \<le> galaxyRadius testConfig" by (simp add: testConfig_def)
  then show ?thesis
    using h(1-3) generateSpiralArms_axis_bound [OF h, of "0.3"] by blast
qed

text \<open>
  The claim as stated fails for a galaxy of radius 10: a star at distance 13, beyond
  \<open>10 * 1.2\<close>.
\<close>

theorem generateSpiralArms_axis_bound_counterexample:
  "0 < galaxyRadius smallGalaxy \<and> 1 \<le> armCount smallGalaxy \<and> valid_rng (constantRandom (9 / 10))
   \<and> axisDistance (positions (fst (generateSpiralArms smallGalaxy 0.3 (constantRandom (9 / 10))))) 0
       = Some 13
   \<and> \<not> 13 \<le> galaxyRadius smallGalaxy * 1.2"
proof -
  have c: "0 < nat (starCount smallGalaxy)" "armCount smallGalaxy \<noteq> 0"
      "galaxyRadius smallGalaxy = 10" "armCount smallGalaxy = 4"
    by (simp_all add: smallGalaxy_def testConfig_def)
  have r: "spiralFinalRadius smallGalaxy (constantRandom (9 / 10)) = 13"
    by (simp add: spiralFinalRadius_def constantRandom_def c(3))
  have "axisDistance (positions (fst (generateSpiralArms smallGalaxy 0.3 (constantRandom (9 / 10))))) 0
       = Some 13"
    using generateSpiralArms_axisDistance [OF c(1,2), of "0.3" "constantRandom (9 / 10)"]
    by (simp add: r)
  then show ?thesis
    by (simp add: c valid_rng_constantRandom)
qed

lemma generateSpiralArms_finite:
  assumes "armCount c \<noteq> 0"
  shows "None \<notin> set (positions (fst (generateSpiralArms c t g)))"
proof
  assume "None \<in> set (positions (fst (generateSpiralArms c t g)))"
  then obtain s where s: "s \<in> set (samples (spiralStar c (adjustedTightness c t)) (nat (starCount c)) g)"
      and n: "star_x s = None \<or> star_z s = None"
    by (auto simp: generateSpiralArms_samples pushAll_def)
  from s obtain g' where "s = fst (spiralStar c (adjustedTightness c t) g')"
    using samples_from_body by blast
  with n show False
    by (simp add: spiralStar_xz_finite [OF assms])
qed

text \<open>
  C5, as the code has it. \<^verbatim>\<open>generateSpiralArms\<close> has no guard on \<^verbatim>\<open>armCount\<close>: it
  divides by the configured value. It returns arrays of \<open>3n\<close>, \<open>3n\<close> and \<open>n\<close> entries
  for every \<^verbatim>\<open>armCount\<close>. For every \<^verbatim>\<open>armCount\<close> other than zero (negative ones
  too) every position entry is a finite number, \<^verbatim>\<open>x\<close> and \<^verbatim>\<open>z\<close> being the polar
  coordinates of an angle that divides by \<^verbatim>\<open>armCount\<close> itself; for \<open>armCount = 0\<close>
  the \<^verbatim>\<open>x\<close> and \<^verbatim>\<open>z\<close> entry of every star is \<^verbatim>\<open>NaN\<close> (only \<^verbatim>\<open>y\<close> is a
  number).
\<close>

theorem generateSpiralArms_armCount_unguarded:
  "length (positions (fst (generateSpiralArms config tightness g))) = 3 * nat (starCount config)
   \<and> length (colors (fst (generateSpiralArms config tightness g))) = 3 * nat (starCount config)
   \<and> length (sizes (fst (generateSpiralArms config tightness g))) = nat (starCount config)
   \<and> (armCount config \<noteq> 0 \<longrightarrow>
        None \<notin> set (positions (fst (generateSpiralArms config tightness g)))
        \<and> (\<forall>i < nat (starCount config).
             positions (fst (generateSpiralArms config tightness g)) ! (3 * i)
               = Some (cos (spiralFinalAngle config (adjustedTightness config tightness)
                              (rng_after (spiralStar config (adjustedTightness config tightness)) i g))
                       * spiralFinalRadius config
                           (rng_after (spiralStar config (adjustedTightness config tightness)) i g))
           \<and> positions (fst (generateSpiralArms config tightness g)) ! (3 * i + 2)
               = Some (sin (spiralFinalAngle config (adjustedTightness config tightness)
                              (rng_after (spiralStar config (adjustedTightness config tightness)) i g))
                       * spiralFinalRadius config
                           (rng_after (spiralStar config (adjustedTightness config tightness)) i g))))
   \<and> (armCount config = 0 \<longrightarrow>
        (\<forall>i < nat (starCount config).
             positions (fst (generateSpiralArms config tightness g)) ! (3 * i) = None
           \<and> positions (fst (generateSpiralArms config tightness g)) ! (3 * i + 1) \<noteq> None
           \<and> positions (fst (generateSpiralArms config tightness g)) ! (3 * i + 2) = None))"
proof -
  have lens: "length (positions (fst (generateSpiralArms config tightness g))) = 3 * nat (starCount config)"
    "length (colors (fst (generateSpiralArms config tightness g))) = 3 * nat (starCount config)"
    "length (sizes (fst (generateSpiralArms config tightness g))) = nat (starCount config)"
    by (simp_all add: generateSpiralArms_samples pushAll_lengths length_samples)
  have fin: "None \<notin> set (positions (fst (generateSpiralArms config tightness g)))"
    if "armCount config \<noteq> 0"
    using that by (rule generateSpiralArms_finite)
  have xz: "positions (fst (generateSpiralArms config tightness g)) ! (3 * i)
               = Some (cos (spiralFinalAngle config (adjustedTightness config tightness)
                              (rng_after (spiralStar config (adjustedTightness config tightness)) i g))
                       * spiralFinalRadius config
                           (rng_after (spiralStar config (adjustedTightness config tightness)) i g))
           \<and> positions (fst (generateSpiralArms config tightness g)) ! (3 * i + 2)
               = Some (sin (spiralFinalAngle config (adjustedTightness config tightness)
                              (rng_after (spiralStar config (adjustedTightness config tightness)) i g))
                       * spiralFinalRadius config
                           (rng_after (spiralStar config (adjustedTightness config tightness)) i g))"
    if "armCount config \<noteq> 0" "i < nat (starCount config)" for i
    by (simp only: generateSpiralArms_star [OF that(2)] spiralStar_xz_finite [OF that(1)])
  have nan: "positions (fst (generateSpiralArms config tightness g)) ! (3 * i) = None
           \<and> positions (fst (generateSpiralArms config tightness g)) ! (3 * i + 1) \<noteq> None
           \<and> positions (fst (generateSpiralArms config tightness g)) ! (3 * i + 2) = None"
    if "armCount config = 0" "i < nat (starCount config)" for i
    using spiralStar_xz_nan [OF that(1)]
    by (simp only: generateSpiralArms_star [OF that(2)]) simp
  show ?thesis
    using lens fin xz nan by blast
qed

theorem generateSpiralArms_armCount_unguarded_witness:
  "armCount testConfig \<noteq> 0
   \<and> None \<notin> set (positions (fst (generateSpiralArms testConfig 0.3 (constantRandom (1 / 2)))))
   \<and> armCount noArms = 0
   \<and> positions (fst (generateSpiralArms noArms 0.3 (constantRandom (1 / 2)))) ! (3 * 0) = None
   \<and> positions (fst (generateSpiralArms noArms 0.3 (constantRandom (1 / 2)))) ! (3 * 0 + 2) = None"
proof -
  have h: "armCount testConfig \<noteq> 0" "armCount noArms = 0" "0 < nat (starCount noArms)"
    by (simp_all add: testConfig_def noArms_def)
  show ?thesis
    using h generateSpiralArms_armCount_unguarded [of testConfig "0.3" "constantRandom (1 / 2)"]
      generateSpiralArms_armCount_unguarded [of noArms "0.3" "constantRandom (1 / 2)"]
    by blast
qed

text \<open>
  The claim as stated fails at \<open>armCount = 0\<close>: the one star generated has no finite
  \<^verbatim>\<open>x\<close> or \<^verbatim>\<open>z\<close>.
\<close>

theorem generateSpiralArms_armCount_counterexample:
  "armCount noArms \<le> 0 \<and> 0 \<le> starCount noArms \<and> valid_rng (constantRandom (1 / 2))
   \<and> length (positions (fst (generateSpiralArms noArms 0.3 (constantRandom (1 / 2))))) = 3
   \<and> positions (fst (generateSpiralArms noArms 0.3 (constantRandom (1 / 2)))) ! 0 = None
   \<and> positions (fst (generateSpiralArms noArms 0.3 (constantRandom (1 / 2)))) ! 2 = None"
proof -
  have h: "armCount noArms = 0" "starCount noArms = 1"
    by (simp_all add: testConfig_def noArms_def)
  have i: "0 < nat (starCount noArms)" by (simp add: h)
  have "positions (fst (generateSpiralArms noArms 0.3 (constantRandom (1 / 2)))) ! (3 * 0) = None"
       "positions (fst (generateSpiralArms noArms 0.3 (constantRandom (1 / 2)))) ! (3 * 0 + 2) = None"
    using spiralStar_xz_nan [OF h(1)]
    by (simp_all only: generateSpiralArms_star [OF i])
  then show ?thesis
    by (simp add: h generateSpiralArms_length_positions valid_rng_constantRandom numeral_2_eq_2)
qed

lemma starBaseColor_brightness [simp]:
  "starBaseColor (c\<lparr>brightness := x\<rparr>) q g = starBaseColor c q g"
  by (simp add: starBaseColor_def Let_def split_def)

lemma multiplyScalar_one [simp]: "multiplyScalar col 1 = col"
  by (simp add: multiplyScalar_def)

lemma spiralStar_color:
  "star_color (fst (spiralStar c t g))
   = multiplyScalar
       (fst (starBaseColor c (js_div (spiralFinalRadius c g) (galaxyRadius c)) (\<lambda>n. g (n + 5))))
       (brightnessValue c)"
  unfolding spiralStar_def Let_def split_def spiralFinalRadius_def
  by (simp add: random_def eval_nat_numeral)

lemma spiralStar_brightness:
  "spiralStar (c\<lparr>brightness := x\<rparr>) t g
   = (scaleColor (brightnessValue (c\<lparr>brightness := x\<rparr>)) (fst (spiralStar (c\<lparr>brightness := Some 1\<rparr>) t g)),
      snd (spiralStar (c\<lparr>brightness := Some 1\<rparr>) t g))"
  unfolding spiralStar_def Let_def split_def scaleColor_def
  by (simp add: brightnessValue_def multiplyScalar_def)

lemma bulgeStar_brightness:
  "bulgeStar (c\<lparr>brightness := x\<rparr>) g
   = (scaleColor (brightnessValue (c\<lparr>brightness := x\<rparr>)) (fst (bulgeStar (c\<lparr>brightness := Some 1\<rparr>) g)),
      snd (bulgeStar (c\<lparr>brightness := Some 1\<rparr>) g))"
  unfolding bulgeStar_def Let_def split_def scaleColor_def
  by (simp add: brightnessValue_def multiplyScalar_def)

lemma rng_after_scaled:
  assumes "\<And>g. body g = (scaleColor k (fst (body1 g)), snd (body1 g))"
  shows "rng_after body n g = rng_after body1 n g"
  by (induction n arbitrary: g) (simp_all add: assms)

lemma samples_scaled:
  assumes "\<And>g. body g = (scaleColor k (fst (body1 g)), snd (body1 g))"
  shows "samples body n g = map (scaleColor k) (samples body1 n g)"
  by (induction n arbitrary: g) (simp_all add: assms)

lemma concat_map_scaled:
  "concat (map (\<lambda>s. [col_r (star_color s), col_g (star_color s), col_b (star_color s)])
             (map (scaleColor k) xs))
   = map (\<lambda>v. v * k)
       (concat (map (\<lambda>s. [col_r (star_color s), col_g (star_color s), col_b (star_color s)]) xs))"
  by (induction xs) (simp_all add: scaleColor_def multiplyScalar_def)

lemma pushAll_scaled:
  "positions (pushAll a (map (scaleColor k) xs)) = positions (pushAll a xs)"
  "sizes (pushAll a (map (scaleColor k) xs)) = sizes (pushAll a xs)"
  "colors (pushAll a (map (scaleColor k) xs))
     = colors a @ map (\<lambda>v. v * k) (drop (length (colors a)) (colors (pushAll a xs)))"
proof -
  show "positions (pushAll a (map (scaleColor k) xs)) = positions (pushAll a xs)"
    by (simp add: pushAll_def scaleColor_def comp_def)
  show "sizes (pushAll a (map (scaleColor k) xs)) = sizes (pushAll a xs)"
    by (simp add: pushAll_def scaleColor_def comp_def)
  have "colors (pushAll a (map (scaleColor k) xs))
        = colors a @ concat (map (\<lambda>s. [col_r (star_color s), col_g (star_color s), col_b (star_color s)])
             (map (scaleColor k) xs))"
    by (simp only: pushAll_def StarArrays.simps)
  also have "\<dots> = colors a @ map (\<lambda>v. v * k)
       (concat (map (\<lambda>s. [col_r (star_color s), col_g (star_color s), col_b (star_color s)]) xs))"
    by (simp only: concat_map_scaled)
  also have "concat (map (\<lambda>s. [col_r (star_color s), col_g (star_color s), col_b (star_color s)]) xs)
             = drop (length (colors a)) (colors (pushAll a xs))"
    by (simp add: pushAll_def)
  finally show "colors (pushAll a (map (scaleColor k) xs))
     = colors a @ map (\<lambda>v. v * k) (drop (length (colors a)) (colors (pushAll a xs)))" .
qed

lemma scaleColor_one: "scaleColor 1 s = s"
  by (simp add: scaleColor_def)

lemma generateSpiralArms_brightness:
  "generateSpiralArms (c\<lparr>brightness := x\<rparr>) t g
   = (pushAll \<lparr>positions = [], colors = [], sizes = []\<rparr>
        (map (scaleColor (brightnessValue (c\<lparr>brightness := x\<rparr>)))
           (samples (spiralStar (c\<lparr>brightness := Some 1\<rparr>) (adjustedTightness c t)) (nat (starCount c)) g)),
      rng_after (spiralStar (c\<lparr>brightness := Some 1\<rparr>) (adjustedTightness c t)) (nat (starCount c)) g)"
proof -
  let ?T = "adjustedTightness c t"
  have T: "adjustedTightness (c\<lparr>brightness := x\<rparr>) t = ?T"
    by (simp add: adjustedTightness_def)
  have a: "samples (spiralStar (c\<lparr>brightness := x\<rparr>) ?T) (nat (starCount c)) g
           = map (scaleColor (brightnessValue (c\<lparr>brightness := x\<rparr>)))
               (samples (spiralStar (c\<lparr>brightness := Some 1\<rparr>) ?T) (nat (starCount c)) g)"
    by (rule samples_scaled) (rule spiralStar_brightness)
  have b: "rng_after (spiralStar (c\<lparr>brightness := x\<rparr>) ?T) (nat (starCount c)) g
           = rng_after (spiralStar (c\<lparr>brightness := Some 1\<rparr>) ?T) (nat (starCount c)) g"
    by (rule rng_after_scaled) (rule spiralStar_brightness)
  have n: "starCount (c\<lparr>brightness := x\<rparr>) = starCount c" by simp
  show ?thesis
    unfolding generateSpiralArms_def spiralArmsLoop_samples T n
    by (simp only: a b)
qed

lemma addCentralBulge_brightness:
  "addCentralBulge (c\<lparr>brightness := x\<rparr>) ps cs ss n g
   = (pushAll \<lparr>positions = ps, colors = cs, sizes = ss\<rparr>
        (map (scaleColor (brightnessValue (c\<lparr>brightness := x\<rparr>)))
           (samples (bulgeStar (c\<lparr>brightness := Some 1\<rparr>)) (nat n) g)),
      rng_after (bulgeStar (c\<lparr>brightness := Some 1\<rparr>)) (nat n) g)"
proof -
  have a: "samples (bulgeStar (c\<lparr>brightness := x\<rparr>)) (nat n) g
           = map (scaleColor (brightnessValue (c\<lparr>brightness := x\<rparr>)))
               (samples (bulgeStar (c\<lparr>brightness := Some 1\<rparr>)) (nat n) g)"
    by (rule samples_scaled) (rule bulgeStar_brightness)
  have b: "rng_after (bulgeStar (c\<lparr>brightness := x\<rparr>)) (nat n) g
           = rng_after (bulgeStar (c\<lparr>brightness := Some 1\<rparr>)) (nat n) g"
    by (rule rng_after_scaled) (rule bulgeStar_brightness)
  show ?thesis
    unfolding addCentralBulge_def bulgeLoop_samples
    by (simp only: a b)
qed

lemma brightnessValue_simps:
  "brightnessValue (c\<lparr>brightness := None\<rparr>) = 1"
  "brightnessValue (c\<lparr>brightness := Some 0\<rparr>) = 1"
  "brightnessValue (c\<lparr>brightness := Some 1\<rparr>) = 1"
  "k \<noteq> 0 \<Longrightarrow> brightnessValue (c\<lparr>brightness := Some k\<rparr>) = k"
  by (simp_all add: brightnessValue_def)

lemma pushAll_nth_colors:
  assumes "i < length xs"
  shows "colors (pushAll a xs) ! (length (colors a) + 3 * i) = col_r (star_color (xs ! i))"
    and "colors (pushAll a xs) ! (length (colors a) + 3 * i + 1) = col_g (star_color (xs ! i))"
    and "colors (pushAll a xs) ! (length (colors a) + 3 * i + 2) = col_b (star_color (xs ! i))"
  using assms nth_concat_triples [OF assms, of "\<lambda>s. col_r (star_color s)"
      "\<lambda>s. col_g (star_color s)" "\<lambda>s. col_b (star_color s)"]
  by (simp_all add: pushAll_def nth_append add.assoc)

lemma bulgeStar_red:
  "col_r (star_color (fst (bulgeStar c g))) = brightnessValue c"
  by (simp add: bulgeStar_fst multiplyScalar_def lerpColors_def setHex_def)

lemma addCentralBulge_red:
  assumes "i < nat n"
  shows "colors (fst (addCentralBulge c ps cs ss n g)) ! (length cs + 3 * i) = brightnessValue c"
proof -
  let ?xs = "samples (bulgeStar c) (nat n) g"
  have il: "i < length ?xs" using assms by (simp add: length_samples)
  have "colors (fst (addCentralBulge c ps cs ss n g)) ! (length cs + 3 * i)
        = col_r (star_color (?xs ! i))"
    using pushAll_nth_colors(1) [OF il, of "\<lparr>positions = ps, colors = cs, sizes = ss\<rparr>"]
    by (simp add: addCentralBulge_samples)
  also have "\<dots> = brightnessValue c"
    by (simp add: samples_nth [OF assms] bulgeStar_red)
  finally show ?thesis .
qed

lemma colorAt_not_black:
  "\<forall>c \<in> set cs. \<not> isBlack c \<Longrightarrow> \<not> isBlack (colorAt cs i)"
  by (auto simp: colorAt_def isBlack_def)

lemma multiplyScalar_not_black:
  "k \<noteq> 0 \<Longrightarrow> \<not> isBlack c \<Longrightarrow> \<not> isBlack (multiplyScalar c k)"
  by (auto simp: multiplyScalar_def isBlack_def)

lemma lerp_core_not_black: "\<not> isBlack (lerpColors (setHex 0xffffff) (setHex 0xffddaa) u)"
  by (simp add: isBlack_def lerpColors_def setHex_def)

lemma lerp_outer_not_black:
  assumes "u < 1"
  shows "\<not> isBlack (lerpColors (setHex 0xaaddff) (setHex 0x6699cc) u)"
proof -
  have "col_b (lerpColors (setHex 0xaaddff) (setHex 0x6699cc) u) = 1 - u / 5"
    by (simp add: lerpColors_def setHex_def)
  then have "col_b (lerpColors (setHex 0xaaddff) (setHex 0x6699cc) u) \<noteq> 0"
    using assms by simp
  then show ?thesis by (simp add: isBlack_def)
qed

lemma starBaseColor_not_black:
  assumes "valid_rng g" "\<forall>c \<in> set (starColors cfg). \<not> isBlack c"
  shows "\<not> isBlack (fst (starBaseColor cfg q g))"
proof -
  have u: "g (Suc 0) < 1" using assms(1) by (simp add: valid_rng_def)
  show ?thesis
    unfolding starBaseColor_def Let_def split_def random_def
    using lerp_core_not_black colorAt_not_black [OF assms(2)]
      multiplyScalar_not_black [OF _ colorAt_not_black [OF assms(2)], of "0.85"]
      lerp_outer_not_black [OF u]
    by simp
qed

lemma valid_rng_drop: "valid_rng g \<Longrightarrow> valid_rng (\<lambda>n. g (n + k))"
  by (simp add: valid_rng_def)

lemma spiralStar_not_black:
  assumes "valid_rng g" "\<forall>c \<in> set (starColors cfg). \<not> isBlack c"
  shows "\<not> isBlack (star_color (fst (spiralStar cfg t g)))"
proof -
  have "brightnessValue cfg \<noteq> 0"
    by (simp add: brightnessValue_def split: option.split)
  then show ?thesis
    unfolding spiralStar_color
    using starBaseColor_not_black [OF valid_rng_drop [OF assms(1)] assms(2)]
    by (intro multiplyScalar_not_black)
qed

lemma generateSpiralArms_color:
  assumes "i < nat (starCount c)"
  shows "colors (fst (generateSpiralArms c t g)) ! (3 * i)
           = col_r (star_color (fst (spiralStar c (adjustedTightness c t)
               (rng_after (spiralStar c (adjustedTightness c t)) i g))))"
    and "colors (fst (generateSpiralArms c t g)) ! (3 * i + 1)
           = col_g (star_color (fst (spiralStar c (adjustedTightness c t)
               (rng_after (spiralStar c (adjustedTightness c t)) i g))))"
    and "colors (fst (generateSpiralArms c t g)) ! (3 * i + 2)
           = col_b (star_color (fst (spiralStar c (adjustedTightness c t)
               (rng_after (spiralStar c (adjustedTightness c t)) i g))))"
proof -
  let ?xs = "samples (spiralStar c (adjustedTightness c t)) (nat (starCount c)) g"
  have il: "i < length ?xs" using assms by (simp add: length_samples)
  have s: "?xs ! i = fst (spiralStar c (adjustedTightness c t)
               (rng_after (spiralStar c (adjustedTightness c t)) i g))"
    using assms by (rule samples_nth)
  note n = pushAll_nth_colors [OF il, of "\<lparr>positions = [], colors = [], sizes = []\<rparr>"]
  show "colors (fst (generateSpiralArms c t g)) ! (3 * i)
           = col_r (star_color (fst (spiralStar c (adjustedTightness c t)
               (rng_after (spiralStar c (adjustedTightness c t)) i g))))"
    using n(1) by (simp add: generateSpiralArms_samples s)
  show "colors (fst (generateSpiralArms c t g)) ! (3 * i + 1)
           = col_g (star_color (fst (spiralStar c (adjustedTightness c t)
               (rng_after (spiralStar c (adjustedTightness c t)) i g))))"
    using n(2) by (simp add: generateSpiralArms_samples s)
  show "colors (fst (generateSpiralArms c t g)) ! (3 * i + 2)
           = col_b (star_color (fst (spiralStar c (adjustedTightness c t)
               (rng_after (spiralStar c (adjustedTightness c t)) i g))))"
    using n(3) by (simp add: generateSpiralArms_samples s)
qed

lemma generateSpiralArms_not_black:
  assumes "valid_rng g" "\<forall>c \<in> set (starColors cfg). \<not> isBlack c" "i < nat (starCount cfg)"
  shows "\<not> (colors (fst (generateSpiralArms cfg t g)) ! (3 * i) = 0
           \<and> colors (fst (generateSpiralArms cfg t g)) ! (3 * i + 1) = 0
           \<and> colors (fst (generateSpiralArms cfg t g)) ! (3 * i + 2) = 0)"
proof -
  let ?g = "rng_after (spiralStar cfg (adjustedTightness cfg t)) i g"
  have "valid_rng ?g" using assms(1) by (rule valid_rng_spiral_after)
  then have "\<not> isBlack (star_color (fst (spiralStar cfg (adjustedTightness cfg t) ?g)))"
    using assms(2) by (rule spiralStar_not_black)
  then show ?thesis
    unfolding generateSpiralArms_color [OF assms(3)] isBlack_def .
qed

text \<open>
  C10, as the code has it. A brightness of 0 and an absent brightness both give the
  factor 1.0: \<^verbatim>\<open>generateSpiralArms\<close> and \<^verbatim>\<open>addCentralBulge\<close> return what they
  return for brightness 1.0. So the factor blackens no colour: every bulge star has red
  channel 1, and a spiral-arm star is black only when its base colour is, which needs a
  black entry in \<^verbatim>\<open>starColors\<close>. The colour pushed for a star is its base colour
  times the factor, and for a nonzero brightness \<open>b\<close> the returned colours are those of
  brightness 1.0 (the base colours) times \<open>b\<close>, positions and sizes being the same.
\<close>

theorem brightness_fallback:
  "generateSpiralArms (config\<lparr>brightness := Some 0\<rparr>) tightness g
     = generateSpiralArms (config\<lparr>brightness := Some 1\<rparr>) tightness g
   \<and> generateSpiralArms (config\<lparr>brightness := None\<rparr>) tightness g
     = generateSpiralArms (config\<lparr>brightness := Some 1\<rparr>) tightness g
   \<and> addCentralBulge (config\<lparr>brightness := Some 0\<rparr>) ps cs ss n g
     = addCentralBulge (config\<lparr>brightness := Some 1\<rparr>) ps cs ss n g
   \<and> addCentralBulge (config\<lparr>brightness := None\<rparr>) ps cs ss n g
     = addCentralBulge (config\<lparr>brightness := Some 1\<rparr>) ps cs ss n g
   \<and> (\<forall>i < nat n.
        colors (fst (addCentralBulge (config\<lparr>brightness := Some 0\<rparr>) ps cs ss n g))
          ! (length cs + 3 * i) = 1)
   \<and> ((\<forall>c \<in> set (starColors config). \<not> isBlack c) \<and> valid_rng g \<longrightarrow>
        (\<forall>i < nat (starCount config).
           \<not> (colors (fst (generateSpiralArms (config\<lparr>brightness := Some 0\<rparr>) tightness g)) ! (3 * i) = 0
              \<and> colors (fst (generateSpiralArms (config\<lparr>brightness := Some 0\<rparr>) tightness g))
                    ! (3 * i + 1) = 0
              \<and> colors (fst (generateSpiralArms (config\<lparr>brightness := Some 0\<rparr>) tightness g))
                    ! (3 * i + 2) = 0)))
   \<and> star_color (fst (spiralStar config t' g))
     = multiplyScalar
         (fst (starBaseColor config (js_div (spiralFinalRadius config g) (galaxyRadius config))
                 (\<lambda>n. g (n + 5))))
         (brightnessValue config)
   \<and> star_color (fst (bulgeStar config g))
     = multiplyScalar (lerpColors (setHex 0xffaa66) (setHex 0xff8844) (g 4)) (brightnessValue config)
   \<and> brightnessValue (config\<lparr>brightness := Some 1\<rparr>) = 1
   \<and> (b \<noteq> 0 \<longrightarrow>
        brightnessValue (config\<lparr>brightness := Some b\<rparr>) = b
      \<and> colors (fst (generateSpiralArms (config\<lparr>brightness := Some b\<rparr>) tightness g))
          = map (\<lambda>v. v * b)
              (colors (fst (generateSpiralArms (config\<lparr>brightness := Some 1\<rparr>) tightness g)))
      \<and> positions (fst (generateSpiralArms (config\<lparr>brightness := Some b\<rparr>) tightness g))
          = positions (fst (generateSpiralArms (config\<lparr>brightness := Some 1\<rparr>) tightness g))
      \<and> sizes (fst (generateSpiralArms (config\<lparr>brightness := Some b\<rparr>) tightness g))
          = sizes (fst (generateSpiralArms (config\<lparr>brightness := Some 1\<rparr>) tightness g))
      \<and> colors (fst (addCentralBulge (config\<lparr>brightness := Some b\<rparr>) ps cs ss n g))
          = cs @ map (\<lambda>v. v * b)
              (drop (length cs)
                 (colors (fst (addCentralBulge (config\<lparr>brightness := Some 1\<rparr>) ps cs ss n g)))))"
proof -
  let ?c1 = "config\<lparr>brightness := Some 1\<rparr>"
  have s0: "generateSpiralArms (config\<lparr>brightness := Some 0\<rparr>) tightness g
            = generateSpiralArms ?c1 tightness g"
    by (simp only: generateSpiralArms_brightness [where c = config and t = tightness and g = g] brightnessValue_simps)
  have sN: "generateSpiralArms (config\<lparr>brightness := None\<rparr>) tightness g
            = generateSpiralArms ?c1 tightness g"
    by (simp only: generateSpiralArms_brightness [where c = config and t = tightness and g = g] brightnessValue_simps)
  have b0: "addCentralBulge (config\<lparr>brightness := Some 0\<rparr>) ps cs ss n g
            = addCentralBulge ?c1 ps cs ss n g"
    by (simp only: addCentralBulge_brightness [where c = config and ps = ps and cs = cs and ss = ss and n = n and g = g] brightnessValue_simps)
  have bN: "addCentralBulge (config\<lparr>brightness := None\<rparr>) ps cs ss n g
            = addCentralBulge ?c1 ps cs ss n g"
    by (simp only: addCentralBulge_brightness [where c = config and ps = ps and cs = cs and ss = ss and n = n and g = g] brightnessValue_simps)
  have red: "\<forall>i < nat n.
        colors (fst (addCentralBulge (config\<lparr>brightness := Some 0\<rparr>) ps cs ss n g))
          ! (length cs + 3 * i) = 1"
    by (simp add: addCentralBulge_red brightnessValue_simps)
  have nb: "\<forall>i < nat (starCount config).
           \<not> (colors (fst (generateSpiralArms (config\<lparr>brightness := Some 0\<rparr>) tightness g)) ! (3 * i) = 0
              \<and> colors (fst (generateSpiralArms (config\<lparr>brightness := Some 0\<rparr>) tightness g))
                    ! (3 * i + 1) = 0
              \<and> colors (fst (generateSpiralArms (config\<lparr>brightness := Some 0\<rparr>) tightness g))
                    ! (3 * i + 2) = 0)"
    if "\<forall>c \<in> set (starColors config). \<not> isBlack c" "valid_rng g"
    using generateSpiralArms_not_black [of g "config\<lparr>brightness := Some 0\<rparr>" _ tightness] that
    by simp
  have sc: "star_color (fst (spiralStar config t' g))
     = multiplyScalar
         (fst (starBaseColor config (js_div (spiralFinalRadius config g) (galaxyRadius config))
                 (\<lambda>n. g (n + 5))))
         (brightnessValue config)"
    by (rule spiralStar_color)
  have bc: "star_color (fst (bulgeStar config g))
     = multiplyScalar (lerpColors (setHex 0xffaa66) (setHex 0xff8844) (g 4)) (brightnessValue config)"
    by (simp add: bulgeStar_fst)
  have one: "brightnessValue ?c1 = 1" by (rule brightnessValue_simps)
  have scaled: "brightnessValue (config\<lparr>brightness := Some b\<rparr>) = b
      \<and> colors (fst (generateSpiralArms (config\<lparr>brightness := Some b\<rparr>) tightness g))
          = map (\<lambda>v. v * b) (colors (fst (generateSpiralArms ?c1 tightness g)))
      \<and> positions (fst (generateSpiralArms (config\<lparr>brightness := Some b\<rparr>) tightness g))
          = positions (fst (generateSpiralArms ?c1 tightness g))
      \<and> sizes (fst (generateSpiralArms (config\<lparr>brightness := Some b\<rparr>) tightness g))
          = sizes (fst (generateSpiralArms ?c1 tightness g))
      \<and> colors (fst (addCentralBulge (config\<lparr>brightness := Some b\<rparr>) ps cs ss n g))
          = cs @ map (\<lambda>v. v * b) (drop (length cs) (colors (fst (addCentralBulge ?c1 ps cs ss n g))))"
    if b: "b \<noteq> 0"
  proof -
    have v: "brightnessValue (config\<lparr>brightness := Some b\<rparr>) = b"
      using b by (rule brightnessValue_simps)
    have g1: "fst (generateSpiralArms ?c1 tightness g)
              = pushAll \<lparr>positions = [], colors = [], sizes = []\<rparr>
                  (samples (spiralStar ?c1 (adjustedTightness config tightness))
                     (nat (starCount config)) g)"
      by (simp add: generateSpiralArms_samples adjustedTightness_def)
    have a1: "fst (addCentralBulge ?c1 ps cs ss n g)
              = pushAll \<lparr>positions = ps, colors = cs, sizes = ss\<rparr>
                  (samples (bulgeStar ?c1) (nat n) g)"
      by (rule addCentralBulge_samples)
    show ?thesis
      using pushAll_scaled [of "\<lparr>positions = [], colors = [], sizes = []\<rparr>" b
          "samples (spiralStar ?c1 (adjustedTightness config tightness)) (nat (starCount config)) g"]
        pushAll_scaled(3) [of "\<lparr>positions = ps, colors = cs, sizes = ss\<rparr>" b
          "samples (bulgeStar ?c1) (nat n) g"]
      by (simp add: v g1 a1 generateSpiralArms_brightness [where c = config and x = "Some b" and t = tightness and g = g]
          addCentralBulge_brightness [where c = config and x = "Some b" and ps = ps and cs = cs and ss = ss and n = n and g = g])
  qed
  show ?thesis
    using s0 sN b0 bN red nb sc bc one scaled by blast
qed

theorem brightness_fallback_witness:
  "(2::real) \<noteq> 0
   \<and> list_all (\<lambda>c. \<not> isBlack c) (starColors testConfig) \<and> valid_rng (constantRandom (1 / 2))
   \<and> colors (fst (generateSpiralArms (testConfig\<lparr>brightness := Some 2\<rparr>) 0.3 (constantRandom (1 / 2))))
       = map (\<lambda>v. v * 2)
           (colors (fst (generateSpiralArms (testConfig\<lparr>brightness := Some 1\<rparr>) 0.3
              (constantRandom (1 / 2)))))
   \<and> colors (fst (addCentralBulge (testConfig\<lparr>brightness := Some 0\<rparr>) [] [] [] 1
         (constantRandom (1 / 2)))) ! 0 = 1
   \<and> \<not> (colors (fst (generateSpiralArms (testConfig\<lparr>brightness := Some 0\<rparr>) 0.3
              (constantRandom (1 / 2)))) ! (3 * 0) = 0
        \<and> colors (fst (generateSpiralArms (testConfig\<lparr>brightness := Some 0\<rparr>) 0.3
              (constantRandom (1 / 2)))) ! (3 * 0 + 1) = 0
        \<and> colors (fst (generateSpiralArms (testConfig\<lparr>brightness := Some 0\<rparr>) 0.3
              (constantRandom (1 / 2)))) ! (3 * 0 + 2) = 0)"
proof -
  note t = brightness_fallback [where config = testConfig and tightness = "0.3"
      and g = "constantRandom (1 / 2)" and ps = "[]" and cs = "[]" and ss = "[]" and n = 1 and b = 2]
  from t have r: "\<forall>i < nat 1.
        colors (fst (addCentralBulge (testConfig\<lparr>brightness := Some 0\<rparr>) [] [] [] 1
          (constantRandom (1 / 2)))) ! (length ([]::real list) + 3 * i) = 1"
    by blast
  have r0: "colors (fst (addCentralBulge (testConfig\<lparr>brightness := Some 0\<rparr>) [] [] [] 1
          (constantRandom (1 / 2)))) ! 0 = 1"
    using r [rule_format, of 0] by simp
  have n: "(2::real) \<noteq> 0" by simp
  have p: "\<forall>c \<in> set (starColors testConfig). \<not> isBlack c"
    by (simp add: testConfig_def isBlack_def setHex_def)
  have v: "valid_rng (constantRandom (1 / 2))"
    by (simp add: valid_rng_constantRandom)
  have i: "0 < nat (starCount testConfig)" by (simp add: testConfig_def)
  from t n have c: "colors (fst (generateSpiralArms (testConfig\<lparr>brightness := Some 2\<rparr>) 0.3 (constantRandom (1 / 2))))
       = map (\<lambda>v. v * 2)
           (colors (fst (generateSpiralArms (testConfig\<lparr>brightness := Some 1\<rparr>) 0.3
              (constantRandom (1 / 2)))))"
    by blast
  from t p v have "\<forall>i < nat (starCount testConfig).
      \<not> (colors (fst (generateSpiralArms (testConfig\<lparr>brightness := Some 0\<rparr>) 0.3
              (constantRandom (1 / 2)))) ! (3 * i) = 0
        \<and> colors (fst (generateSpiralArms (testConfig\<lparr>brightness := Some 0\<rparr>) 0.3
              (constantRandom (1 / 2)))) ! (3 * i + 1) = 0
        \<and> colors (fst (generateSpiralArms (testConfig\<lparr>brightness := Some 0\<rparr>) 0.3
              (constantRandom (1 / 2)))) ! (3 * i + 2) = 0)"
    by blast
  then have nb: "\<not> (colors (fst (generateSpiralArms (testConfig\<lparr>brightness := Some 0\<rparr>) 0.3
              (constantRandom (1 / 2)))) ! (3 * 0) = 0
        \<and> colors (fst (generateSpiralArms (testConfig\<lparr>brightness := Some 0\<rparr>) 0.3
              (constantRandom (1 / 2)))) ! (3 * 0 + 1) = 0
        \<and> colors (fst (generateSpiralArms (testConfig\<lparr>brightness := Some 0\<rparr>) 0.3
              (constantRandom (1 / 2)))) ! (3 * 0 + 2) = 0)"
    using i by blast
  have p': "list_all (\<lambda>c. \<not> isBlack c) (starColors testConfig)"
    using p by (simp add: list_all_iff)
  from n p' v c r0 nb show ?thesis by blast
qed

text \<open>
  The claim as stated fails for a palette that holds black: at brightness 0 a
  mid-region star gets the colour \<open>(0, 0, 0)\<close>.
\<close>

theorem brightness_zero_counterexample:
  "brightness blackPalette = Some 0 \<and> valid_rng (constantRandom (1 / 2))
   \<and> colors (fst (generateSpiralArms blackPalette 0.3 (constantRandom (1 / 2)))) = [0, 0, 0]"
proof -
  have c: "nat (starCount blackPalette) = Suc 0" "galaxyRadius blackPalette = 100"
      "starColors blackPalette = [\<lparr>col_r = 0, col_g = 0, col_b = 0\<rparr>]"
      "brightness blackPalette = Some 0"
    by (simp_all add: blackPalette_def testConfig_def)
  have r: "spiralFinalRadius blackPalette (constantRandom (1 / 2)) = 50"
    by (simp add: spiralFinalRadius_def constantRandom_def c)
  have b: "fst (starBaseColor blackPalette (js_div 50 100) (\<lambda>n. constantRandom (1 / 2) (n + 5)))
           = \<lparr>col_r = 0, col_g = 0, col_b = 0\<rparr>"
    by (simp add: starBaseColor_def js_div_def num_less_def random_def constantRandom_def c
        colorAt_def)
  have "star_color (fst (spiralStar blackPalette (adjustedTightness blackPalette 0.3)
          (constantRandom (1 / 2)))) = \<lparr>col_r = 0, col_g = 0, col_b = 0\<rparr>"
    by (simp add: spiralStar_color r c b multiplyScalar_def)
  then have "colors (fst (generateSpiralArms blackPalette 0.3 (constantRandom (1 / 2)))) = [0, 0, 0]"
    by (simp add: generateSpiralArms_samples c pushAll_def)
  then show ?thesis
    by (simp add: c valid_rng_constantRandom)
qed

subsection \<open>The rendering optimizer\<close>

lemma last_lodDistances: "last lodDistances * 2 = 800"
  by (simp add: lodDistances_def)

lemma getLODLevel_cases:
  "getLODLevel d =
     (if d < 50 then 0 else if d < 100 then 1 else if d < 200 then 2 else if d < 400 then 3 else 4)"
  by (simp add: getLODLevel_def lodDistances_def)

lemma classifyStar_level:
  "classifyStar camera ps cs ss i m level =
     (if renderable camera ps cs ss i
         \<and> getLODLevel (distance (starEntry camera ps cs ss i)) = level
      then Some ((case m level of None \<Rightarrow> [] | Some stars \<Rightarrow> stars) @ [starEntry camera ps cs ss i])
      else m level)"
  by (simp add: classifyStar_def Let_def renderable_def last_lodDistances)

lemma fold_classify:
  "fold (classifyStar camera ps cs ss) [0..<m] Map.empty level =
     (if bucket camera ps cs ss m level = [] then None
      else Some (map (starEntry camera ps cs ss) (bucket camera ps cs ss m level)))"
proof (induction m)
  case 0
  then show ?case by (simp add: bucket_def)
next
  case (Suc m)
  let ?F = "fold (classifyStar camera ps cs ss) [0..<m] Map.empty"
  let ?hit = "renderable camera ps cs ss m
                 \<and> getLODLevel (distance (starEntry camera ps cs ss m)) = level"
  have b: "bucket camera ps cs ss (Suc m) level =
           bucket camera ps cs ss m level @ (if ?hit then [m] else [])"
    by (simp add: bucket_def)
  have "fold (classifyStar camera ps cs ss) [0..<Suc m] Map.empty level
        = classifyStar camera ps cs ss m ?F level"
    by simp
  also have "\<dots> = (if ?hit
      then Some ((case ?F level of None \<Rightarrow> [] | Some stars \<Rightarrow> stars) @ [starEntry camera ps cs ss m])
      else ?F level)"
    by (rule classifyStar_level)
  finally have f: "fold (classifyStar camera ps cs ss) [0..<Suc m] Map.empty level
      = (if ?hit
         then Some ((case ?F level of None \<Rightarrow> [] | Some stars \<Rightarrow> stars) @ [starEntry camera ps cs ss m])
         else ?F level)" .
  show ?case
  proof (cases ?hit)
    case True
    then show ?thesis
      unfolding f b Suc.IH by (cases "bucket camera ps cs ss m level = []") simp_all
  next
    case False
    then show ?thesis
      unfolding f b Suc.IH by simp
  qed
qed

lemma bucket_member:
  "i \<in> set (bucket camera ps cs ss m level) \<longleftrightarrow>
     i < m
     \<and> \<not> 800 < distance (starEntry camera ps cs ss i)
     \<and> isPointVisible camera (position (starEntry camera ps cs ss i))
     \<and> getLODLevel (distance (starEntry camera ps cs ss i)) = level"
  by (auto simp: bucket_def renderable_def)

lemma starEntry_distance:
  "distance (starEntry camera ps cs ss i)
   = distanceTo (position (starEntry camera ps cs ss i)) (cameraPosition camera)"
  by (simp add: starEntry_def Let_def)

lemma distanceTo_self: "distanceTo p p = 0"
  by (simp add: distanceTo_def)

text \<open>
  C6, as the code has it. For every LOD level the optimizer's map holds exactly the
  stars, in index order, whose distance to the camera does not exceed 800 (twice the
  last threshold), that pass the frustum test, and whose level is the first threshold
  of 50, 100, 200, 400 above the distance (level 4 beyond the last); the map has no
  entry for a level without such a star. A star at the camera position has distance 0
  and level 0; it is pushed for level 0 exactly when the frustum test accepts the
  camera position, which the classification does not decide.
\<close>

theorem groupStarsByLOD_classification:
  "groupStarsByLOD camera ps cs ss level =
     (if bucket camera ps cs ss (length ps div 3) level = [] then None
      else Some (map (starEntry camera ps cs ss) (bucket camera ps cs ss (length ps div 3) level)))
   \<and> (\<forall>j. j \<in> set (bucket camera ps cs ss (length ps div 3) level) \<longleftrightarrow>
          j < length ps div 3
        \<and> \<not> 800 < distance (starEntry camera ps cs ss j)
        \<and> isPointVisible camera (position (starEntry camera ps cs ss j))
        \<and> getLODLevel (distance (starEntry camera ps cs ss j)) = level)
   \<and> getLODLevel d =
       (if d < 50 then 0 else if d < 100 then 1 else if d < 200 then 2 else if d < 400 then 3 else 4)
   \<and> (i < length ps div 3 \<and> position (starEntry camera ps cs ss i) = cameraPosition camera \<longrightarrow>
        distance (starEntry camera ps cs ss i) = 0
      \<and> getLODLevel (distance (starEntry camera ps cs ss i)) = 0
      \<and> (i \<in> set (bucket camera ps cs ss (length ps div 3) 0)
            \<longleftrightarrow> isPointVisible camera (cameraPosition camera))
      \<and> (level \<noteq> 0 \<longrightarrow> i \<notin> set (bucket camera ps cs ss (length ps div 3) level)))"
proof -
  have a: "groupStarsByLOD camera ps cs ss level =
     (if bucket camera ps cs ss (length ps div 3) level = [] then None
      else Some (map (starEntry camera ps cs ss) (bucket camera ps cs ss (length ps div 3) level)))"
    unfolding groupStarsByLOD_def by (rule fold_classify)
  have b: "\<forall>j. j \<in> set (bucket camera ps cs ss (length ps div 3) level) \<longleftrightarrow>
          j < length ps div 3
        \<and> \<not> 800 < distance (starEntry camera ps cs ss j)
        \<and> isPointVisible camera (position (starEntry camera ps cs ss j))
        \<and> getLODLevel (distance (starEntry camera ps cs ss j)) = level"
    by (simp add: bucket_member)
  have c: "getLODLevel d =
       (if d < 50 then 0 else if d < 100 then 1 else if d < 200 then 2 else if d < 400 then 3 else 4)"
    by (rule getLODLevel_cases)
  have e: "distance (starEntry camera ps cs ss i) = 0
      \<and> getLODLevel (distance (starEntry camera ps cs ss i)) = 0
      \<and> (i \<in> set (bucket camera ps cs ss (length ps div 3) 0)
            \<longleftrightarrow> isPointVisible camera (cameraPosition camera))
      \<and> (level \<noteq> 0 \<longrightarrow> i \<notin> set (bucket camera ps cs ss (length ps div 3) level))"
    if i: "i < length ps div 3"
      and p: "position (starEntry camera ps cs ss i) = cameraPosition camera"
  proof -
    have d0: "distance (starEntry camera ps cs ss i) = 0"
      by (simp only: starEntry_distance p distanceTo_self)
    have l0: "getLODLevel (distance (starEntry camera ps cs ss i)) = 0"
      by (simp add: d0 getLODLevel_cases)
    have l: "getLODLevel 0 = 0" by (simp add: getLODLevel_cases)
    show ?thesis
      using i by (simp add: bucket_member d0 l p)
  qed
  show ?thesis
    using a b c e by blast
qed

theorem groupStarsByLOD_classification_witness:
  "0 < length [0, 30, 100 :: real] div 3
   \<and> position (starEntry orthographicCamera [0, 30, 100] [1, 1, 1] [1] 0)
       = cameraPosition orthographicCamera
   \<and> isPointVisible orthographicCamera (cameraPosition orthographicCamera)
   \<and> 0 \<in> set (bucket orthographicCamera [0, 30, 100] [1, 1, 1] [1] (length [0, 30, 100 :: real] div 3) 0)
   \<and> 0 \<notin> set (bucket orthographicCamera [0, 30, 100] [1, 1, 1] [1] (length [0, 30, 100 :: real] div 3) 1)
   \<and> getLODLevel (distance (starEntry orthographicCamera [0, 30, 100] [1, 1, 1] [1] 0)) = 0"
proof -
  have h: "0 < length [0, 30, 100 :: real] div 3"
      "position (starEntry orthographicCamera [0, 30, 100] [1, 1, 1] [1] 0)
         = cameraPosition orthographicCamera"
    by (simp_all add: starEntry_def Let_def orthographicCamera_def)
  have v: "isPointVisible orthographicCamera (cameraPosition orthographicCamera)"
    by (simp add: isPointVisible_def orthographicCamera_def)
  have n: "(1::nat) \<noteq> 0" by simp
  show ?thesis
    using h v n
      groupStarsByLOD_classification [where camera = orthographicCamera and ps = "[0, 30, 100]"
        and cs = "[1, 1, 1]" and ss = "[1]" and i = 0 and level = 1]
    by blast
qed

text \<open>
  The claim as stated fails for a view volume in front of a positive near plane: the
  star at the camera position is not frustum-visible and is pushed for no level.
\<close>

theorem groupStarsByLOD_camera_counterexample:
  "position (starEntry perspectiveCamera [0, 30, 100] [1, 1, 1] [1] 0)
     = cameraPosition perspectiveCamera
   \<and> \<not> isPointVisible perspectiveCamera (cameraPosition perspectiveCamera)
   \<and> groupStarsByLOD perspectiveCamera [0, 30, 100] [1, 1, 1] [1] 0 = None"
proof -
  have p: "position (starEntry perspectiveCamera [0, 30, 100] [1, 1, 1] [1] 0)
     = cameraPosition perspectiveCamera"
    by (simp add: starEntry_def Let_def perspectiveCamera_def)
  have v: "\<not> isPointVisible perspectiveCamera (cameraPosition perspectiveCamera)"
    by (simp add: isPointVisible_def perspectiveCamera_def)
  have "bucket perspectiveCamera [0, 30, 100] [1, 1, 1] [1] (length [0, 30, 100 :: real] div 3) 0 = []"
    using v by (simp add: bucket_def renderable_def p)
  then have "groupStarsByLOD perspectiveCamera [0, 30, 100] [1, 1, 1] [1] 0 = None"
    unfolding groupStarsByLOD_def fold_classify by (simp only: refl if_True)
  with p v show ?thesis by blast
qed

subsection \<open>The rotation of the renderer\<close>

lemma valid_rng_sequenceRandom:
  "list_all (\<lambda>v. 0 \<le> v \<and> v < 1) xs \<Longrightarrow> valid_rng (sequenceRandom xs)"
  by (simp add: valid_rng_def sequenceRandom_def list_all_length)

lemma offPlane_sample:
  "fst (spiralStar offPlaneConfig t offPlaneDraws)
   = \<lparr>star_x = Some 0, star_y = 2, star_z = Some 0,
      star_color = \<lparr>col_r = 1, col_g = 1, col_b = 1\<rparr>, star_size = 3 / 40\<rparr>"
  unfolding spiralStar_def Let_def split_def
  by (simp add: random_def offPlaneDraws_def sequenceRandom_def offPlaneConfig_def testConfig_def
      js_div_def num_add_def num_less_def starBaseColor_def lerpColors_def setHex_def
      multiplyScalar_def brightnessValue_def)

lemma offPlane_galaxy:
  "fst (generateGalaxy offPlaneConfig offPlaneDraws)
   = \<lparr>positions = [Some 0, Some 2, Some 0], colors = [1, 1, 1], sizes = [3 / 40],
      rotationRadii = [Some 2], angularVelocities = [Some (1 / 5)],
      galaxyConfig = offPlaneConfig\<rparr>"
proof -
  have c: "starCount offPlaneConfig = 1" "rotationSpeed offPlaneConfig = 1"
    by (simp_all add: offPlaneConfig_def testConfig_def)
  have s: "fst (generateSpiralArms offPlaneConfig 0.3 offPlaneDraws)
           = \<lparr>positions = [Some 0, Some 2, Some 0], colors = [1, 1, 1], sizes = [3 / 40]\<rparr>"
    by (simp add: generateSpiralArms_samples c offPlane_sample pushAll_def)
  show ?thesis
    unfolding generateGalaxy_def Let_def split_def
    by (simp add: s c addCentralBulge_samples pushAll_Nil rotationData_def get_def
        calculateAngularVelocity_def)
qed

text \<open>
  C1 at a star above the centre. The claim asks for the radius \<open>sqrt(x\<^sup>2 + z\<^sup>2)\<close>, here
  0, and the angular velocity of that radius, here 0. \<^verbatim>\<open>generateGalaxy\<close> reads the
  entry at \<^verbatim>\<open>i * 3 + 1\<close>, the \<^verbatim>\<open>y\<close> coordinate, and stores the radius 2 and the
  angular velocity \<open>1/5\<close>.
\<close>

theorem generateGalaxy_radius_from_y:
  "positions (fst (generateGalaxy offPlaneConfig offPlaneDraws)) = [Some 0, Some 2, Some 0]
   \<and> axisDistance (positions (fst (generateGalaxy offPlaneConfig offPlaneDraws))) 0 = Some 0
   \<and> rotationRadii (fst (generateGalaxy offPlaneConfig offPlaneDraws)) = [Some 2]
   \<and> angularVelocities (fst (generateGalaxy offPlaneConfig offPlaneDraws)) = [Some (1 / 5)]
   \<and> calculateAngularVelocity 0 (rotationSpeed offPlaneConfig) = 0"
  by (simp add: offPlane_galaxy axisDistance_def get_def calculateAngularVelocity_def)

lemma atan2_origin: "atan2 0 0 = 0"
  by (simp add: atan2_def)

text \<open>
  C2 at the same star. One call of \<^verbatim>\<open>updateStarPositions\<close> moves the star from
  distance 0 from the vertical axis to distance 2, the radius stored for it.
\<close>

theorem updateStarPositions_moves_off_axis:
  "axisDistance (positions (fst (generateGalaxy offPlaneConfig offPlaneDraws))) 0 = Some 0
   \<and> positions (updateStarPositions 1 (fst (generateGalaxy offPlaneConfig offPlaneDraws)))
       = [Some (cos (1 / 5) * 2), Some 2, Some (sin (1 / 5) * 2)]
   \<and> axisDistance
         (positions (updateStarPositions 1 (fst (generateGalaxy offPlaneConfig offPlaneDraws)))) 0
       = Some 2"
proof -
  have p: "positions (updateStarPositions 1 (fst (generateGalaxy offPlaneConfig offPlaneDraws)))
       = [Some (cos (1 / 5) * 2), Some 2, Some (sin (1 / 5) * 2)]"
    by (simp add: updateStarPositions_def offPlane_galaxy updateStar_def get_def num_less_def
        num_add_def num_mul_def atan2_origin)
  have d: "axisDistance [Some (cos (1 / 5) * 2), Some 2, Some (sin (1 / 5) * 2)] 0 = Some 2"
    using axis_distance_polar [of 2 "1 / 5"]
    by (simp add: axisDistance_def get_def)
  show ?thesis
    by (simp only: p d) (simp add: offPlane_galaxy axisDistance_def get_def)
qed

lemma spin_sample:
  "fst (spiralStar spinConfig t spinDraws)
   = \<lparr>star_x = Some 2, star_y = 0, star_z = Some 0,
      star_color = \<lparr>col_r = 1, col_g = 1, col_b = 1\<rparr>, star_size = 3 / 40\<rparr>"
  unfolding spiralStar_def Let_def split_def
  by (simp add: random_def spinDraws_def sequenceRandom_def spinConfig_def testConfig_def
      js_div_def num_add_def num_less_def starBaseColor_def lerpColors_def setHex_def
      multiplyScalar_def brightnessValue_def)

lemma spin_galaxy:
  "fst (generateGalaxy spinConfig spinDraws)
   = \<lparr>positions = [Some 2, Some 0, Some 0], colors = [1, 1, 1], sizes = [3 / 40],
      rotationRadii = [Some 2], angularVelocities = [Some pi],
      galaxyConfig = spinConfig\<rparr>"
proof -
  have c: "starCount spinConfig = 1" "rotationSpeed spinConfig = 5 * pi"
    by (simp_all add: spinConfig_def testConfig_def)
  have s: "fst (generateSpiralArms spinConfig 0.3 spinDraws)
           = \<lparr>positions = [Some 2, Some 0, Some 0], colors = [1, 1, 1], sizes = [3 / 40]\<rparr>"
    by (simp add: generateSpiralArms_samples c spin_sample pushAll_def)
  show ?thesis
    unfolding generateGalaxy_def Let_def split_def
    by (simp add: s c addCentralBulge_samples pushAll_Nil rotationData_def get_def
        calculateAngularVelocity_def)
qed

lemma spin_frame_1:
  "updateStarPositions 1 (fst (generateGalaxy spinConfig spinDraws))
   = (fst (generateGalaxy spinConfig spinDraws))\<lparr>positions := [Some (- 2), Some 0, Some 0]\<rparr>"
  by (simp add: updateStarPositions_def spin_galaxy updateStar_def get_def num_less_def
      num_add_def num_mul_def atan2_def)

lemma spin_frame_2_after_1:
  "updateStarPositions 2
     ((fst (generateGalaxy spinConfig spinDraws))\<lparr>positions := [Some (- 2), Some 0, Some 0]\<rparr>)
   = (fst (generateGalaxy spinConfig spinDraws))\<lparr>positions := [Some (- 2), Some 0, Some 0]\<rparr>"
  by (simp add: updateStarPositions_def spin_galaxy updateStar_def get_def num_less_def
      num_add_def num_mul_def atan2_def)

lemma spin_frame_2:
  "updateStarPositions 2 (fst (generateGalaxy spinConfig spinDraws))
   = (fst (generateGalaxy spinConfig spinDraws))\<lparr>positions := [Some 2, Some 0, Some 0]\<rparr>"
  by (simp add: updateStarPositions_def spin_galaxy updateStar_def get_def num_less_def
      num_add_def num_mul_def atan2_def)

text \<open>
  C3 at a star at \<open>(2, 0, 0)\<close> with angular velocity \<open>\<pi>\<close>. At elapsed time 2 the
  absolute-time angle is \<open>2\<pi>\<close> and the star is back at \<open>(2, 0, 0)\<close>, which is what one
  frame at time 2 gives; frames at times 1 and 2 leave it at \<open>(-2, 0, 0)\<close>, since each
  frame adds the whole elapsed time to the angle of the position the frame before left.
\<close>

theorem animate_depends_on_frames:
  "positions (fst (generateGalaxy spinConfig spinDraws)) = [Some 2, Some 0, Some 0]
   \<and> rotationRadii (fst (generateGalaxy spinConfig spinDraws)) = [Some 2]
   \<and> angularVelocities (fst (generateGalaxy spinConfig spinDraws)) = [Some pi]
   \<and> positions (animate [2] (fst (generateGalaxy spinConfig spinDraws)))
       = [Some 2, Some 0, Some 0]
   \<and> positions (animate [1, 2] (fst (generateGalaxy spinConfig spinDraws)))
       = [Some (- 2), Some 0, Some 0]
   \<and> cos (atan2 0 2 + pi * 2) * 2 = 2 \<and> sin (atan2 0 2 + pi * 2) * 2 = 0"
  by (simp add: animate_def spin_frame_1 spin_frame_2_after_1 spin_frame_2)
    (simp add: spin_galaxy atan2_def)

subsection \<open>The rotation data of the two paths\<close>

text \<open>
  \<^verbatim>\<open>initializeRotationData\<close> of the component stores the distance from the vertical
  axis; \<^verbatim>\<open>generateGalaxy\<close> of the renderer stores \<open>sqrt(x\<^sup>2 + y\<^sup>2)\<close>.
\<close>

lemma initializeRotationData_radii:
  assumes "i < length ps div 3"
  shows "radii (initializeRotationData ps speed) ! i = axisDistance ps i"
    and "angularVelocities' (initializeRotationData ps speed) ! i
         = map_option (\<lambda>r. calculateAngularVelocity r speed) (axisDistance ps i)"
  using assms
  by (simp_all add: initializeRotationData_def initialRotation_def axisDistance_def Let_def
      mult.commute split: option.split)

lemma generateGalaxy_rotationRadii:
  assumes "i < length (positions (fst (generateGalaxy config g))) div 3"
  shows "rotationRadii (fst (generateGalaxy config g)) ! i
         = (case (get (positions (fst (generateGalaxy config g))) (3 * i),
                  get (positions (fst (generateGalaxy config g))) (3 * i + 1)) of
              (Some x, Some y) \<Rightarrow> Some (sqrt (x * x + y * y))
            | _ \<Rightarrow> None)"
  using assms
  by (simp add: generateGalaxy_def rotationData_def Let_def split_def mult.commute)


lemma get_update:
  "get (xs[k := v]) m = (if m = k \<and> k < length xs then v else get xs m)"
  by (simp add: get_def nth_list_update)

lemma star_index_apart:
  "Suc (3 * i) \<noteq> j * 3" "3 * i \<noteq> Suc (j * 3)" "3 * i \<noteq> Suc (Suc (j * 3))"
  "Suc (Suc (3 * i)) \<noteq> j * 3" "(3 * i = j * 3) = (i = j)"
  for i j :: nat
  by presburger+

lemma rotateStar_frame:
  "radii (fst (rotateStar dt j s)) = radii (fst s)"
  "angularVelocities' (fst (rotateStar dt j s)) = angularVelocities' (fst s)"
  "length (angles (fst (rotateStar dt j s))) = length (angles (fst s))"
  "length (snd (rotateStar dt j s)) = length (snd s)"
  "get (snd (rotateStar dt j s)) (Suc (3 * i)) = get (snd s) (Suc (3 * i))"
  by (simp_all add: rotateStar_def Let_def get_update star_index_apart)

lemma rotateStar_other:
  assumes "j \<noteq> i"
  shows "get (angles (fst (rotateStar dt j s))) i = get (angles (fst s)) i"
    and "get (snd (rotateStar dt j s)) (3 * i) = get (snd s) (3 * i)"
    and "get (snd (rotateStar dt j s)) (Suc (Suc (3 * i))) = get (snd s) (Suc (Suc (3 * i)))"
  using assms
  by (simp_all add: rotateStar_def Let_def get_update star_index_apart)

lemma rotateStar_self:
  assumes "i < length (angles (fst s))" "Suc (Suc (3 * i)) < length (snd s)"
  shows "get (angles (fst (rotateStar dt i s))) i
         = num_add (get (angles (fst s)) i)
             (map_option (\<lambda>v. v * dt) (get (angularVelocities' (fst s)) i))"
    and "get (snd (rotateStar dt i s)) (3 * i)
         = num_mul (map_option cos (num_add (get (angles (fst s)) i)
                      (map_option (\<lambda>v. v * dt) (get (angularVelocities' (fst s)) i))))
             (get (radii (fst s)) i)"
    and "get (snd (rotateStar dt i s)) (Suc (Suc (3 * i)))
         = num_mul (map_option sin (num_add (get (angles (fst s)) i)
                      (map_option (\<lambda>v. v * dt) (get (angularVelocities' (fst s)) i))))
             (get (radii (fst s)) i)"
  using assms
  by (simp_all add: rotateStar_def Let_def get_update mult.commute [of i 3])


lemma fold_rotateStar_frame:
  "radii (fst (fold (rotateStar dt) js s)) = radii (fst s)"
  "angularVelocities' (fst (fold (rotateStar dt) js s)) = angularVelocities' (fst s)"
  "length (angles (fst (fold (rotateStar dt) js s))) = length (angles (fst s))"
  "length (snd (fold (rotateStar dt) js s)) = length (snd s)"
  "get (snd (fold (rotateStar dt) js s)) (Suc (3 * i)) = get (snd s) (Suc (3 * i))"
  by (induction js arbitrary: s) (simp_all add: rotateStar_frame)

lemma fold_rotateStar_other:
  assumes "i \<notin> set js"
  shows "get (angles (fst (fold (rotateStar dt) js s))) i = get (angles (fst s)) i"
    and "get (snd (fold (rotateStar dt) js s)) (3 * i) = get (snd s) (3 * i)"
    and "get (snd (fold (rotateStar dt) js s)) (Suc (Suc (3 * i))) = get (snd s) (Suc (Suc (3 * i)))"
  using assms by (induction js arbitrary: s) (simp_all add: rotateStar_other)

lemma updateGalaxyRotation_frame:
  "radii (fst (updateGalaxyRotation dt s)) = radii (fst s)"
  "angularVelocities' (fst (updateGalaxyRotation dt s)) = angularVelocities' (fst s)"
  "length (angles (fst (updateGalaxyRotation dt s))) = length (angles (fst s))"
  "length (snd (updateGalaxyRotation dt s)) = length (snd s)"
  "get (snd (updateGalaxyRotation dt s)) (Suc (3 * i)) = get (snd s) (Suc (3 * i))"
  by (simp_all add: updateGalaxyRotation_def fold_rotateStar_frame)

lemma updateGalaxyRotation_star:
  assumes "i < length (radii (fst s))" "i < length (angles (fst s))" "Suc (Suc (3 * i)) < length (snd s)"
  shows "get (angles (fst (updateGalaxyRotation dt s))) i
         = num_add (get (angles (fst s)) i)
             (map_option (\<lambda>v. v * dt) (get (angularVelocities' (fst s)) i))"
    and "get (snd (updateGalaxyRotation dt s)) (3 * i)
         = num_mul (map_option cos (num_add (get (angles (fst s)) i)
                      (map_option (\<lambda>v. v * dt) (get (angularVelocities' (fst s)) i))))
             (get (radii (fst s)) i)"
    and "get (snd (updateGalaxyRotation dt s)) (Suc (Suc (3 * i)))
         = num_mul (map_option sin (num_add (get (angles (fst s)) i)
                      (map_option (\<lambda>v. v * dt) (get (angularVelocities' (fst s)) i))))
             (get (radii (fst s)) i)"
proof -
  let ?n = "length (radii (fst s))"
  let ?s1 = "fold (rotateStar dt) [0..<i] s"
  let ?s2 = "rotateStar dt i ?s1"
  have split: "[0..<?n] = [0..<i] @ i # [Suc i..<?n]"
    using assms(1) by (metis le0 upt_conv_Cons upt_add_eq_append le_add_diff_inverse less_imp_le)
  have u: "updateGalaxyRotation dt s = fold (rotateStar dt) [Suc i..<?n] ?s2"
    unfolding updateGalaxyRotation_def by (subst split) simp
  have before: "get (angles (fst ?s1)) i = get (angles (fst s)) i"
    by (rule fold_rotateStar_other) simp
  have fr: "radii (fst ?s1) = radii (fst s)" "angularVelocities' (fst ?s1) = angularVelocities' (fst s)"
    "length (angles (fst ?s1)) = length (angles (fst s))" "length (snd ?s1) = length (snd s)"
    by (simp_all add: fold_rotateStar_frame)
  have l: "i < length (angles (fst ?s1))" "Suc (Suc (3 * i)) < length (snd ?s1)"
    using assms fr by simp_all
  have notin: "i \<notin> set [Suc i..<?n]" by simp
  show "get (angles (fst (updateGalaxyRotation dt s))) i
         = num_add (get (angles (fst s)) i)
             (map_option (\<lambda>v. v * dt) (get (angularVelocities' (fst s)) i))"
    unfolding u fold_rotateStar_other(1) [OF notin] rotateStar_self(1) [OF l] before fr ..
  show "get (snd (updateGalaxyRotation dt s)) (3 * i)
         = num_mul (map_option cos (num_add (get (angles (fst s)) i)
                      (map_option (\<lambda>v. v * dt) (get (angularVelocities' (fst s)) i))))
             (get (radii (fst s)) i)"
    unfolding u fold_rotateStar_other(2) [OF notin] rotateStar_self(2) [OF l] before fr ..
  show "get (snd (updateGalaxyRotation dt s)) (Suc (Suc (3 * i)))
         = num_mul (map_option sin (num_add (get (angles (fst s)) i)
                      (map_option (\<lambda>v. v * dt) (get (angularVelocities' (fst s)) i))))
             (get (radii (fst s)) i)"
    unfolding u fold_rotateStar_other(3) [OF notin] rotateStar_self(3) [OF l] before fr ..
qed


lemma viewer_frames_frame:
  "radii (fst (fold updateGalaxyRotation ds s)) = radii (fst s)"
  "angularVelocities' (fst (fold updateGalaxyRotation ds s)) = angularVelocities' (fst s)"
  "length (angles (fst (fold updateGalaxyRotation ds s))) = length (angles (fst s))"
  "length (snd (fold updateGalaxyRotation ds s)) = length (snd s)"
  "get (snd (fold updateGalaxyRotation ds s)) (Suc (3 * i)) = get (snd s) (Suc (3 * i))"
  by (induction ds arbitrary: s) (simp_all add: updateGalaxyRotation_frame)

lemma viewer_frames_star:
  assumes "i < length (radii (fst s))" "i < length (angles (fst s))"
    and "Suc (Suc (3 * i)) < length (snd s)"
    and "get (radii (fst s)) i = Some r" "get (angularVelocities' (fst s)) i = Some v"
    and "get (angles (fst s)) i = Some a"
  shows "get (angles (fst (fold updateGalaxyRotation ds s))) i = Some (a + v * sum_list ds)
       \<and> (ds \<noteq> [] \<longrightarrow>
            get (snd (fold updateGalaxyRotation ds s)) (3 * i)
              = Some (cos (a + v * sum_list ds) * r)
          \<and> get (snd (fold updateGalaxyRotation ds s)) (Suc (Suc (3 * i)))
              = Some (sin (a + v * sum_list ds) * r))"
  using assms
proof (induction ds arbitrary: s a)
  case Nil
  then show ?case by simp
next
  case (Cons d ds)
  let ?s = "updateGalaxyRotation d s"
  have a': "get (angles (fst ?s)) i = Some (a + v * d)"
    using Cons.prems by (simp add: updateGalaxyRotation_star(1) num_add_def)
  have x': "get (snd ?s) (3 * i) = Some (cos (a + v * d) * r)"
    using Cons.prems by (simp add: updateGalaxyRotation_star(2) num_add_def num_mul_def)
  have z': "get (snd ?s) (Suc (Suc (3 * i))) = Some (sin (a + v * d) * r)"
    using Cons.prems by (simp add: updateGalaxyRotation_star(3) num_add_def num_mul_def)
  have pre: "i < length (radii (fst ?s))" "i < length (angles (fst ?s))"
      "Suc (Suc (3 * i)) < length (snd ?s)"
      "get (radii (fst ?s)) i = Some r" "get (angularVelocities' (fst ?s)) i = Some v"
    using Cons.prems by (simp_all add: updateGalaxyRotation_frame)
  note ih = Cons.IH [OF pre a']
  have sum: "a + v * d + v * sum_list ds = a + v * (d + sum_list ds)"
    by (simp add: algebra_simps)
  show ?case
  proof (cases "ds = []")
    case True
    then show ?thesis using a' x' z' by simp
  next
    case False
    then show ?thesis using ih unfolding sum by simp
  qed
qed

text \<open>
  The component's path has what C1, C2 and C3 ask for: the stored radius is the
  distance from the vertical axis, the frames keep that distance, and the position
  after any frames is the one of the angle \<open>angle\<^sub>0 + velocity * elapsed\<close>, where the
  elapsed time is the sum of the frames' delta times.
\<close>

lemma viewer_rotation:
  assumes i: "i < length ps div 3" and d: "axisDistance ps i = Some r"
  shows "radii (initializeRotationData ps speed) ! i = Some r"
    and "angularVelocities' (initializeRotationData ps speed) ! i
           = Some (calculateAngularVelocity r speed)"
    and "axisDistance (snd (fold updateGalaxyRotation ds (initializeRotationData ps speed, ps))) i
           = Some r"
    and "get (snd (fold updateGalaxyRotation ds (initializeRotationData ps speed, ps))) (3 * i + 1)
           = get ps (3 * i + 1)"
    and "ds \<noteq> [] \<Longrightarrow> \<exists>a.
           get (angles (initializeRotationData ps speed)) i = Some a
         \<and> get (snd (fold updateGalaxyRotation ds (initializeRotationData ps speed, ps))) (3 * i)
             = Some (cos (a + calculateAngularVelocity r speed * sum_list ds) * r)
         \<and> get (snd (fold updateGalaxyRotation ds (initializeRotationData ps speed, ps))) (3 * i + 2)
             = Some (sin (a + calculateAngularVelocity r speed * sum_list ds) * r)"
proof -
  let ?sd = "initializeRotationData ps speed"
  let ?s = "(?sd, ps)"
  obtain x z where xz: "get ps (3 * i) = Some x" "get ps (3 * i + 2) = Some z"
      and r: "r = sqrt (x * x + z * z)"
    using d by (auto simp: axisDistance_def split: option.splits)
  have r0: "0 \<le> r" by (simp add: r)
  show rad: "radii ?sd ! i = Some r"
    using i d by (simp add: initializeRotationData_radii)
  show av: "angularVelocities' ?sd ! i = Some (calculateAngularVelocity r speed)"
    using i d by (simp add: initializeRotationData_radii)
  have len: "length (radii ?sd) = length ps div 3" "length (angles ?sd) = length ps div 3"
      "length (angularVelocities' ?sd) = length ps div 3"
    by (simp_all add: initializeRotationData_def Let_def)
  have ang: "get (angles ?sd) i = Some (atan2 z x)"
    using i xz by (simp add: get_def initializeRotationData_def initialRotation_def Let_def
        mult.commute)
  have pre: "i < length (radii (fst ?s))" "i < length (angles (fst ?s))"
      "Suc (Suc (3 * i)) < length (snd ?s)"
      "get (radii (fst ?s)) i = Some r"
      "get (angularVelocities' (fst ?s)) i = Some (calculateAngularVelocity r speed)"
      "get (angles (fst ?s)) i = Some (atan2 z x)"
    using i rad av ang len by (simp_all add: get_def)
  note f = viewer_frames_star [OF pre, of ds]
  show "get (snd (fold updateGalaxyRotation ds ?s)) (3 * i + 1) = get ps (3 * i + 1)"
    using viewer_frames_frame(5) [of ds ?s i] by simp
  show "axisDistance (snd (fold updateGalaxyRotation ds ?s)) i = Some r"
  proof (cases "ds = []")
    case True
    then show ?thesis using d by simp
  next
    case False
    then show ?thesis
      using f axis_distance_polar [OF r0]
      by (simp add: axisDistance_def)
  qed
  show "\<exists>a.
           get (angles ?sd) i = Some a
         \<and> get (snd (fold updateGalaxyRotation ds ?s)) (3 * i)
             = Some (cos (a + calculateAngularVelocity r speed * sum_list ds) * r)
         \<and> get (snd (fold updateGalaxyRotation ds ?s)) (3 * i + 2)
             = Some (sin (a + calculateAngularVelocity r speed * sum_list ds) * r)"
    if "ds \<noteq> []"
    using f that ang by simp
qed

subsection \<open>atan2 and polar coordinates\<close>

lemma sqrt_one_plus_ratio:
  assumes "x \<noteq> 0"
  shows "sqrt (1 + (z / x)\<^sup>2) = sqrt (x * x + z * z) / \<bar>x\<bar>"
proof -
  have "1 + (z / x)\<^sup>2 = (x * x + z * z) / (x\<^sup>2)"
    using assms by (simp add: power2_eq_square field_simps)
  then have "sqrt (1 + (z / x)\<^sup>2) = sqrt ((x * x + z * z) / (x\<^sup>2))" by simp
  also have "\<dots> = sqrt (x * x + z * z) / sqrt (x\<^sup>2)" by (rule real_sqrt_divide)
  also have "\<dots> = sqrt (x * x + z * z) / \<bar>x\<bar>" by simp
  finally show ?thesis .
qed

lemma arctan_ratio:
  assumes "x \<noteq> 0"
  shows "cos (arctan (z / x)) = \<bar>x\<bar> / sqrt (x * x + z * z)"
    and "sin (arctan (z / x)) = (z / x) * \<bar>x\<bar> / sqrt (x * x + z * z)"
  using assms by (simp_all add: cos_arctan sin_arctan sqrt_one_plus_ratio)

lemma atan2_polar:
  assumes "x \<noteq> 0 \<or> z \<noteq> 0"
  shows "cos (atan2 z x) = x / sqrt (x * x + z * z)"
    and "sin (atan2 z x) = z / sqrt (x * x + z * z)"
proof -
  consider "0 < x" | "x < 0" "0 \<le> z" | "x < 0" "z < 0" | "x = 0" "0 < z" | "x = 0" "z < 0"
    using assms by linarith
  then have "cos (atan2 z x) = x / sqrt (x * x + z * z) \<and> sin (atan2 z x) = z / sqrt (x * x + z * z)"
  proof cases
    case 1
    then show ?thesis by (simp add: atan2_def arctan_ratio)
  next
    case 2
    then show ?thesis by (simp add: atan2_def arctan_ratio)
  next
    case 3
    then show ?thesis by (simp add: atan2_def arctan_ratio)
  next
    case 4
    then show ?thesis by (simp add: atan2_def)
  next
    case 5
    then show ?thesis by (simp add: atan2_def)
  qed
  then show "cos (atan2 z x) = x / sqrt (x * x + z * z)"
    and "sin (atan2 z x) = z / sqrt (x * x + z * z)" by simp_all
qed

lemma atan2_of_polar:
  assumes "0 < r"
  shows "cos (atan2 (sin a * r) (cos a * r) + c) = cos (a + c)"
    and "sin (atan2 (sin a * r) (cos a * r) + c) = sin (a + c)"
proof -
  have nz: "cos a * r \<noteq> 0 \<or> sin a * r \<noteq> 0"
  proof (rule ccontr)
    assume "\<not> ?thesis"
    then have "cos a = 0" "sin a = 0" using assms by simp_all
    then show False using sin_cos_squared_add [of a] by simp
  qed
  have d: "sqrt ((cos a * r) * (cos a * r) + (sin a * r) * (sin a * r)) = r"
    using assms by (intro axis_distance_polar) simp
  have cs: "cos (atan2 (sin a * r) (cos a * r)) = cos a" "sin (atan2 (sin a * r) (cos a * r)) = sin a"
    using atan2_polar [OF nz] assms by (simp_all add: d)
  show "cos (atan2 (sin a * r) (cos a * r) + c) = cos (a + c)"
    by (simp add: cos_add cs)
  show "sin (atan2 (sin a * r) (cos a * r) + c) = sin (a + c)"
    by (simp add: sin_add cs)
qed

subsection \<open>The frames of the renderer\<close>

lemma updateStar_frame:
  "length (updateStar t st j ps) = length ps"
  "get (updateStar t st j ps) (Suc (3 * i)) = get ps (Suc (3 * i))"
  by (simp_all add: updateStar_def Let_def get_update star_index_apart)

lemma updateStar_other:
  assumes "j \<noteq> i"
  shows "get (updateStar t st j ps) (3 * i) = get ps (3 * i)"
    and "get (updateStar t st j ps) (Suc (Suc (3 * i))) = get ps (Suc (Suc (3 * i)))"
  using assms by (simp_all add: updateStar_def Let_def get_update star_index_apart)

lemma updateStar_self:
  assumes "Suc (Suc (3 * i)) < length ps"
    and "get (rotationRadii st) i = Some r" "\<not> r < 0.1"
    and "get (angularVelocities st) i = Some v"
    and "get ps (3 * i) = Some x" "get ps (Suc (Suc (3 * i))) = Some z"
  shows "get (updateStar t st i ps) (3 * i) = Some (cos (atan2 z x + t * v) * r)"
    and "get (updateStar t st i ps) (Suc (Suc (3 * i))) = Some (sin (atan2 z x + t * v) * r)"
  using assms
  by (simp_all add: updateStar_def Let_def get_update num_less_def num_add_def num_mul_def
      mult.commute [of i 3])

lemma updateStar_skip:
  assumes "get (rotationRadii st) i = Some r" "r < 0.1"
  shows "updateStar t st i ps = ps"
  using assms by (simp add: updateStar_def num_less_def)

lemma fold_updateStar_frame:
  "length (fold (updateStar t st) js ps) = length ps"
  "get (fold (updateStar t st) js ps) (Suc (3 * i)) = get ps (Suc (3 * i))"
  by (induction js arbitrary: ps) (simp_all add: updateStar_frame)

lemma fold_updateStar_other:
  assumes "i \<notin> set js"
  shows "get (fold (updateStar t st) js ps) (3 * i) = get ps (3 * i)"
    and "get (fold (updateStar t st) js ps) (Suc (Suc (3 * i))) = get ps (Suc (Suc (3 * i)))"
  using assms by (induction js arbitrary: ps) (simp_all add: updateStar_other)

lemma updateStarPositions_frame:
  "rotationRadii (updateStarPositions t st) = rotationRadii st"
  "angularVelocities (updateStarPositions t st) = angularVelocities st"
  "length (positions (updateStarPositions t st)) = length (positions st)"
  "get (positions (updateStarPositions t st)) (Suc (3 * i)) = get (positions st) (Suc (3 * i))"
  by (simp_all add: updateStarPositions_def fold_updateStar_frame)

lemma updateStarPositions_split:
  assumes "Suc (Suc (3 * i)) < length (positions st)"
  shows "positions (updateStarPositions t st)
         = fold (updateStar t st) [Suc i..<(length (positions st) + 2) div 3]
             (updateStar t st i (fold (updateStar t st) [0..<i] (positions st)))"
proof -
  let ?n = "(length (positions st) + 2) div 3"
  have "i < ?n" using assms by presburger
  then have "[0..<?n] = [0..<i] @ i # [Suc i..<?n]"
    by (metis le0 upt_conv_Cons upt_add_eq_append le_add_diff_inverse less_imp_le)
  then show ?thesis
    by (simp add: updateStarPositions_def)
qed

lemma updateStarPositions_star:
  assumes "Suc (Suc (3 * i)) < length (positions st)"
    and "get (rotationRadii st) i = Some r" "\<not> r < 0.1"
    and "get (angularVelocities st) i = Some v"
    and "get (positions st) (3 * i) = Some x" "get (positions st) (Suc (Suc (3 * i))) = Some z"
  shows "get (positions (updateStarPositions t st)) (3 * i) = Some (cos (atan2 z x + t * v) * r)"
    and "get (positions (updateStarPositions t st)) (Suc (Suc (3 * i)))
         = Some (sin (atan2 z x + t * v) * r)"
proof -
  let ?p1 = "fold (updateStar t st) [0..<i] (positions st)"
  have b: "get ?p1 (3 * i) = Some x" "get ?p1 (Suc (Suc (3 * i))) = Some z"
      "Suc (Suc (3 * i)) < length ?p1"
    using assms by (simp_all add: fold_updateStar_other fold_updateStar_frame)
  have notin: "i \<notin> set [Suc i..<(length (positions st) + 2) div 3]" by simp
  show "get (positions (updateStarPositions t st)) (3 * i) = Some (cos (atan2 z x + t * v) * r)"
    unfolding updateStarPositions_split [OF assms(1)] fold_updateStar_other(1) [OF notin]
    using b assms(2-4) by (rule updateStar_self(1) [rotated 4])
  show "get (positions (updateStarPositions t st)) (Suc (Suc (3 * i)))
         = Some (sin (atan2 z x + t * v) * r)"
    unfolding updateStarPositions_split [OF assms(1)] fold_updateStar_other(2) [OF notin]
    using b assms(2-4) by (rule updateStar_self(2) [rotated 4])
qed


lemma animate_polar:
  assumes "Suc (Suc (3 * i)) < length (positions st)"
    and "get (rotationRadii st) i = Some r" "\<not> r < 0.1"
    and "get (angularVelocities st) i = Some v"
    and "get (positions st) (3 * i) = Some (cos a * r)"
    and "get (positions st) (Suc (Suc (3 * i))) = Some (sin a * r)"
  shows "get (positions (animate ts st)) (3 * i) = Some (cos (a + v * sum_list ts) * r)
       \<and> get (positions (animate ts st)) (Suc (Suc (3 * i))) = Some (sin (a + v * sum_list ts) * r)"
  using assms
proof (induction ts arbitrary: st a)
  case Nil
  then show ?case by (simp add: animate_def)
next
  case (Cons t ts)
  let ?st = "updateStarPositions t st"
  have r: "0 < r" using Cons.prems(3) by simp
  have x: "get (positions ?st) (3 * i) = Some (cos (a + t * v) * r)"
    using updateStarPositions_star(1) [OF Cons.prems] by (simp add: atan2_of_polar [OF r])
  have z: "get (positions ?st) (Suc (Suc (3 * i))) = Some (sin (a + t * v) * r)"
    using updateStarPositions_star(2) [OF Cons.prems] by (simp add: atan2_of_polar [OF r])
  have pre: "Suc (Suc (3 * i)) < length (positions ?st)"
      "get (rotationRadii ?st) i = Some r" "get (angularVelocities ?st) i = Some v"
    using Cons.prems by (simp_all add: updateStarPositions_frame)
  have sum: "a + t * v + v * sum_list ts = a + v * (t + sum_list ts)"
    by (simp add: algebra_simps)
  have "animate (t # ts) st = animate ts ?st" by (simp add: animate_def)
  then show ?case
    using Cons.IH [OF pre(1,2) Cons.prems(3) pre(3) x z] unfolding sum by simp
qed

text \<open>
  What the frames of the renderer do to a star with finite data and a stored radius of
  at least 0.1: after the frames at elapsed times \<open>ts\<close> it stands at the stored radius
  and at the angle \<open>atan2 z x + velocity * sum ts\<close>, the sum of all the elapsed times
  and not the last of them; \<^verbatim>\<open>y\<close> is not touched.
\<close>

lemma animate_accumulates:
  assumes "Suc (Suc (3 * i)) < length (positions st)"
    and "get (rotationRadii st) i = Some r" "\<not> r < 0.1"
    and "get (angularVelocities st) i = Some v"
    and "get (positions st) (3 * i) = Some x" "get (positions st) (3 * i + 2) = Some z"
    and "ts \<noteq> []"
  shows "get (positions (animate ts st)) (3 * i) = Some (cos (atan2 z x + v * sum_list ts) * r)"
    and "get (positions (animate ts st)) (3 * i + 1) = get (positions st) (3 * i + 1)"
    and "get (positions (animate ts st)) (3 * i + 2) = Some (sin (atan2 z x + v * sum_list ts) * r)"
    and "axisDistance (positions (animate ts st)) i = Some r"
proof -
  obtain t ts' where ts: "ts = t # ts'" using assms(7) by (cases ts) auto
  let ?st = "updateStarPositions t st"
  have z': "get (positions st) (Suc (Suc (3 * i))) = Some z" using assms(6) by simp
  have x1: "get (positions ?st) (3 * i) = Some (cos (atan2 z x + t * v) * r)"
    and z1: "get (positions ?st) (Suc (Suc (3 * i))) = Some (sin (atan2 z x + t * v) * r)"
    using updateStarPositions_star [OF assms(1-5) z'] by simp_all
  have pre: "Suc (Suc (3 * i)) < length (positions ?st)"
      "get (rotationRadii ?st) i = Some r" "get (angularVelocities ?st) i = Some v"
    using assms by (simp_all add: updateStarPositions_frame)
  have sum: "atan2 z x + t * v + v * sum_list ts' = atan2 z x + v * sum_list ts"
    by (simp add: ts algebra_simps)
  have a: "animate ts st = animate ts' ?st" by (simp add: animate_def ts)
  note p = animate_polar [OF pre(1,2) assms(3) pre(3) x1 z1, of ts', unfolded sum, folded a]
  show gx: "get (positions (animate ts st)) (3 * i) = Some (cos (atan2 z x + v * sum_list ts) * r)"
    using p by simp
  show gz: "get (positions (animate ts st)) (3 * i + 2)
            = Some (sin (atan2 z x + v * sum_list ts) * r)"
    using p by simp
  have "get (positions (fold updateStarPositions us s)) (Suc (3 * i)) = get (positions s) (Suc (3 * i))"
    for us s
    by (induction us arbitrary: s) (simp_all add: updateStarPositions_frame)
  then show "get (positions (animate ts st)) (3 * i + 1) = get (positions st) (3 * i + 1)"
    by (simp add: animate_def)
  have "0 \<le> r" using assms(3) by simp
  then show "axisDistance (positions (animate ts st)) i = Some r"
    by (simp only: axisDistance_def gx gz prod.case option.case axis_distance_polar)
qed

end
